theory Spec2Isabelle
  imports Main
begin

section \<open>Python strings\<close>

text \<open>
  A Python \<open>str\<close> is modelled as a \<open>string\<close>; the characters are the code points 0 to 255.
  \<open>isspace\<close> lists the code points of that range for which Python's \<open>str.isspace\<close>
  holds; \<open>strip\<close> is \<open>str.strip()\<close> without argument.
\<close>

definition isspace :: "char \<Rightarrow> bool" where
  "isspace c = (of_char c \<in> {9, 10, 11, 12, 13, 28, 29, 30, 31, 32, 133, 160 :: nat})"

definition strip :: "string \<Rightarrow> string" where
  "strip s = rev (dropWhile isspace (rev (dropWhile isspace s)))"

definition lower_char :: "char \<Rightarrow> char" where
  "lower_char c =
     (let n = (of_char c :: nat)
      in if (65 \<le> n \<and> n \<le> 90) \<or> (192 \<le> n \<and> n \<le> 222 \<and> n \<noteq> 215)
         then char_of (n + 32) else c)"

definition lower :: "string \<Rightarrow> string" where
  "lower s = map lower_char s"

fun startswith :: "string \<Rightarrow> string \<Rightarrow> bool" where
  "startswith s [] = True"
| "startswith [] (p # ps) = False"
| "startswith (c # cs) (p # ps) = (c = p \<and> startswith cs ps)"

text \<open>\<open>str_in sub s\<close> is Python's \<open>sub in s\<close> on strings.\<close>

fun str_in :: "string \<Rightarrow> string \<Rightarrow> bool" where
  "str_in sub [] = (sub = [])"
| "str_in sub (c # cs) = (startswith (c # cs) sub \<or> str_in sub cs)"

text \<open>The truth value of an optional string: \<open>None\<close> and the empty string are false.\<close>

fun truthy :: "string option \<Rightarrow> bool" where
  "truthy None = False"
| "truthy (Some s) = (s \<noteq> [])"

section \<open>The manifest as an element tree\<close>

text \<open>
  \<open>xml.etree.ElementTree\<close> elements: the tag in the form \<open>{namespace}local\<close>, the
  attributes, the text before the first child (\<open>etext\<close>, Python's \<open>elem.text\<close>; \<open>None\<close> when there is none) and the
  children in document order.
\<close>

datatype element =
  Element (tag: string) (attrib: "(string \<times> string) list") (etext: "string option")
    (children: "element list")

text \<open>\<open>iter_elem\<close> is \<open>Element.iter()\<close>: the element, then its descendants, in document order.\<close>

fun iter_elem :: "element \<Rightarrow> element list" where
  "iter_elem (Element t a x cs) = Element t a x cs # concat (map iter_elem cs)"

text \<open>\<open>findall(".//*")\<close>: every element below the context element, which itself is left out.\<close>

definition descendants :: "element \<Rightarrow> element list" where
  "descendants e = concat (map iter_elem (children e))"

definition CONTENT_PROTECTION_TAG :: string where
  "CONTENT_PROTECTION_TAG = ''{urn:mpeg:dash:schema:mpd:2011}ContentProtection''"

definition WIDEVINE_SCHEME :: string where
  "WIDEVINE_SCHEME = ''urn:uuid:edef8ba9-79d6-4ace-a3c8-27dcd51d21ed''"

definition CENC_PSSH_TAG :: string where
  "CENC_PSSH_TAG = ''{urn:mpeg:cenc:2013}pssh''"

text \<open>
  \<open>root.findall(".//{urn:mpeg:dash:schema:mpd:2011}ContentProtection[@schemeIdUri='...']")\<close>
  and \<open>elem.findall(".//{urn:mpeg:cenc:2013}pssh")\<close>.
\<close>

definition findall_protection :: "element \<Rightarrow> element list" where
  "findall_protection root =
     filter (\<lambda>e. tag e = CONTENT_PROTECTION_TAG
                 \<and> map_of (attrib e) ''schemeIdUri'' = Some WIDEVINE_SCHEME)
       (descendants root)"

definition findall_cenc_pssh :: "element \<Rightarrow> element list" where
  "findall_cenc_pssh elem = filter (\<lambda>e. tag e = CENC_PSSH_TAG) (descendants elem)"

text \<open>
  The two nested loops of lines 163 to 165. \<open>pssh_elem.text.strip()\<close> raises
  AttributeError on an element without text; the loops then stop, and \<open>pssh\<close> keeps the
  value assigned so far. The result is the value of \<open>pssh\<close> and whether the exception
  was raised.
\<close>

fun pssh_inner_loop :: "string option \<Rightarrow> element list \<Rightarrow> string option \<times> bool" where
  "pssh_inner_loop p [] = (p, False)"
| "pssh_inner_loop p (e # es) =
     (case etext e of
        None \<Rightarrow> (p, True)
      | Some t \<Rightarrow> pssh_inner_loop (Some (strip t)) es)"

fun pssh_outer_loop :: "string option \<Rightarrow> element list \<Rightarrow> string option \<times> bool" where
  "pssh_outer_loop p [] = (p, False)"
| "pssh_outer_loop p (elem # elems) =
     (case pssh_inner_loop p (findall_cenc_pssh elem) of
        (p', True) \<Rightarrow> (p', True)
      | (p', False) \<Rightarrow> pssh_outer_loop p' elems)"

text \<open>The permissive scan of lines 169 to 172: the first hit ends the loop.\<close>

fun pssh_fallback_loop :: "string option \<Rightarrow> element list \<Rightarrow> string option" where
  "pssh_fallback_loop p [] = p"
| "pssh_fallback_loop p (e # es) =
     (if str_in ''pssh'' (lower (tag e)) \<and> truthy (etext e)
      then Some (strip (the (etext e)))
      else pssh_fallback_loop p es)"

text \<open>
  The body of the \<open>try\<close> block after \<open>ET.fromstring\<close> (lines 163 to 172, and the same text
  at lines 256 to 265 and 334 to 343); an exception leaves \<open>pssh\<close> as it is.
\<close>

definition pssh_of_root :: "element \<Rightarrow> string option" where
  "pssh_of_root root =
     (case pssh_outer_loop None (findall_protection root) of
        (p, True) \<Rightarrow> p
      | (p, False) \<Rightarrow>
          if \<not> truthy p then pssh_fallback_loop p (descendants root) else p)"

text \<open>
  The whole \<open>try\<close> block, lines 159 to 174: the argument is what \<open>requests.get\<close> followed by
  \<open>ET.fromstring\<close> gives, \<open>None\<close> when either raises (the request fails or the body is not
  well-formed XML).
\<close>

definition extract_pssh :: "element option \<Rightarrow> string option" where
  "extract_pssh body = (case body of None \<Rightarrow> None | Some root \<Rightarrow> pssh_of_root root)"

section \<open>Library functions on URLs and paths\<close>

definition isdigit :: "char \<Rightarrow> bool" where
  "isdigit c = (let n = (of_char c :: nat) in 48 \<le> n \<and> n \<le> 57)"

definition isalpha_ascii :: "char \<Rightarrow> bool" where
  "isalpha_ascii c =
     (let n = (of_char c :: nat) in (65 \<le> n \<and> n \<le> 90) \<or> (97 \<le> n \<and> n \<le> 122))"

definition isalnum_ascii :: "char \<Rightarrow> bool" where
  "isalnum_ascii c = (isdigit c \<or> isalpha_ascii c)"

text \<open>
  \<open>urllib.parse.urlparse\<close>, as far as the program reads its result (the scheme and the
  network location) or can be left by it. Leading characters up to the space (code points 0
  to 32) are dropped, then every tab, carriage return and newline. The scheme is the text
  before the first colon when that text starts with a letter and holds only letters, digits,
  \<open>+\<close>, \<open>-\<close> and \<open>.\<close>; the network location is what follows \<open>//\<close> after the scheme, up
  to the first \<open>/\<close>, \<open>?\<close> or \<open>#\<close>.
\<close>

definition scheme_char :: "char \<Rightarrow> bool" where
  "scheme_char c = (isalnum_ascii c \<or> c = CHR ''+'' \<or> c = CHR ''-'' \<or> c = CHR ''.'')"

definition urlparse_clean :: "string \<Rightarrow> string" where
  "urlparse_clean url =
     filter (\<lambda>c. c \<noteq> CHR 0x09 \<and> c \<noteq> CHR 0x0D \<and> c \<noteq> CHR 0x0A)
       (dropWhile (\<lambda>c. (of_char c :: nat) \<le> 32) url)"

definition urlparse_split :: "string \<Rightarrow> string \<times> string" where
  "urlparse_split url =
     (let url = urlparse_clean url;
          pre = takeWhile (\<lambda>c. c \<noteq> CHR '':'') url
      in if length pre < length url \<and> pre \<noteq> [] \<and> isalpha_ascii (hd pre)
            \<and> list_all scheme_char pre
         then (lower pre, drop (Suc (length pre)) url)
         else ([], url))"

definition urlparse_scheme :: "string \<Rightarrow> string" where
  "urlparse_scheme url = fst (urlparse_split url)"

definition urlparse_netloc :: "string \<Rightarrow> string" where
  "urlparse_netloc url =
     (let rest = snd (urlparse_split url)
      in if take 2 rest = ''//''
         then takeWhile (\<lambda>c. c \<noteq> CHR ''/'' \<and> c \<noteq> CHR ''?'' \<and> c \<noteq> CHR ''#'') (drop 2 rest)
         else [])"

text \<open>
  \<open>urlparse\<close> raises ValueError on a network location with one kind of bracket only, and on
  one with both kinds when the library's check of the text between the first \<open>[\<close> and the
  next \<open>]\<close> fails. That check (an IPv6 or IPvFuture address is expected; older versions of
  the library accept everything) is the parameter \<open>host_ok\<close>. The library's further check
  of the network location under compatibility normalization rejects no text of code points
  0 to 255.
\<close>

definition bracketed_host :: "string \<Rightarrow> string" where
  "bracketed_host netloc =
     takeWhile (\<lambda>c. c \<noteq> CHR '']'') (drop 1 (dropWhile (\<lambda>c. c \<noteq> CHR ''['') netloc))"

definition urlparse_raises :: "(string \<Rightarrow> bool) \<Rightarrow> string \<Rightarrow> bool" where
  "urlparse_raises host_ok url =
     (let netloc = urlparse_netloc url;
          opening = (CHR ''['' \<in> set netloc);
          closing = (CHR '']'' \<in> set netloc)
      in if opening \<and> closing then \<not> host_ok (bracketed_host netloc)
         else opening \<or> closing)"

text \<open>\<open>os.path.join\<close> of two components and the root part of \<open>os.path.splitext\<close> (POSIX).\<close>

definition path_join :: "string \<Rightarrow> string \<Rightarrow> string" where
  "path_join a b =
     (if startswith b ''/'' then b
      else if a = [] \<or> last a = CHR ''/'' then a @ b
      else a @ ''/'' @ b)"

definition splitext_root :: "string \<Rightarrow> string" where
  "splitext_root p =
     (let base = rev (takeWhile (\<lambda>c. c \<noteq> CHR ''/'') (rev p));
          stem = dropWhile (\<lambda>c. c = CHR ''.'') base;
          ext = rev (takeWhile (\<lambda>c. c \<noteq> CHR ''.'') (rev stem))
      in if CHR ''.'' \<in> set stem then take (length p - Suc (length ext)) p else p)"

section \<open>The program identifier patterns\<close>

text \<open>
  \<open>$\<close> without the MULTILINE flag holds at the end of the string and before a newline
  that ends the string; \<open>(?:/|$)\<close> holds where a slash follows or \<open>$\<close> holds.
\<close>

definition slash_or_end :: "string \<Rightarrow> bool" where
  "slash_or_end r = (r = [] \<or> r = [CHR 0x0A] \<or> startswith r ''/'')"

text \<open>
  The pattern \<open>/(\d+)(?:-\d+)?(?:/|$)\<close> tried at one slash, on the text after it. A run of
  digits can only be followed by the rest of the pattern when it is the longest one (a digit
  is neither \<open>-\<close>, \<open>/\<close> nor the end), so backtracking into the runs never finds a match
  and the greedy choice decides. The result is group 1.
\<close>

definition match_digits_at :: "string \<Rightarrow> string option" where
  "match_digits_at cs =
     (let d = takeWhile isdigit cs; r = dropWhile isdigit cs
      in if d = [] then None
         else if startswith r ''-'' \<and> takeWhile isdigit (tl r) \<noteq> []
                 \<and> slash_or_end (dropWhile isdigit (tl r)) then Some d
         else if slash_or_end r then Some d
         else None)"

text \<open>\<open>re.search(r'/(\d+)(?:-\d+)?(?:/|$)', url)\<close>: the leftmost slash where the pattern matches.\<close>

fun search_program_digits :: "string \<Rightarrow> string option" where
  "search_program_digits [] = None"
| "search_program_digits (c # cs) =
     (if c = CHR ''/'' then
        (case match_digits_at cs of
           Some g \<Rightarrow> Some g
         | None \<Rightarrow> search_program_digits cs)
      else search_program_digits cs)"

text \<open>The pattern \<open>/([0-9a-zA-Z]+)(?:/|$)\<close> at one slash, and the search for it.\<close>

definition match_alnum_at :: "string \<Rightarrow> string option" where
  "match_alnum_at cs =
     (let a = takeWhile isalnum_ascii cs; r = dropWhile isalnum_ascii cs
      in if a \<noteq> [] \<and> slash_or_end r then Some a else None)"

fun search_program_alnum :: "string \<Rightarrow> string option" where
  "search_program_alnum [] = None"
| "search_program_alnum (c # cs) =
     (if c = CHR ''/'' then
        (case match_alnum_at cs of
           Some g \<Rightarrow> Some g
         | None \<Rightarrow> search_program_alnum cs)
      else search_program_alnum cs)"

section \<open>State, collaborators and outcomes\<close>

datatype provider = Channel4 | ITV | Channel5

text \<open>
  The calls the program makes on its collaborators (browser session, network, operator,
  file system, child processes), in the order it makes them. Console output is left out,
  except the error stream of the download tool. \<open>CallExtractor\<close> marks the entry into an
  extractor method.
\<close>

datatype event =
    CallExtractor provider string
  | InitBrowser
  | Navigate string
  | WaitVideo
  | ReadNetworkEntries
  | HttpGet string
  | ReadPageSource
  | ClickPlay
  | Prompt
  | WriteCacheFile
  | FetchSubtitle string string
  | MakeDirs string
  | RunTool "string list"
  | PrintToolError int string
  | RunFfmpeg "string list"
  | RemoveFile string
  | RenameFile string string

text \<open>
  The file behind \<open>WIDEVINE_PROXY_DATA_FILE\<close>: absent, present but not loadable by
  \<open>json.load\<close>, or a JSON object of strings. A dict is a list of pairs in insertion order.
\<close>

datatype cache_file = NoFile | Unreadable | Stored "(string \<times> string) list"

text \<open>
  The fields of a \<open>UKStreamerDownloader\<close>: \<open>driver\<close> is whether \<open>self.driver\<close> holds a
  session; \<open>widevine_data\<close> is \<open>None\<close> as long as the attribute has not been assigned
  (\<open>__init__\<close> does not assign it). \<open>cache_file\<close> is the persisted file and \<open>events\<close> the
  log of calls made so far.
\<close>

record state =
  driver :: bool
  widevine_data :: "(string \<times> string) list option"
  cache_file :: cache_file
  events :: "event list"

datatype tool_result = PopenFailed | Exited int string

datatype mux_result = MuxOk | MuxCalledProcessError | MuxOtherError

text \<open>
  What the collaborators answer during one job (\<open>operator_input\<close> is what \<open>input\<close> returns). Each is asked at most once in a job,
  \<open>path_exists\<close> apart, which is the file system as the download tool leaves it.
  \<open>network_items\<close> holds the \<open>name\<close> entry of each performance entry, \<open>None\<close> where the
  entry has none; \<open>http_get_xml\<close> is \<open>requests.get\<close> followed by \<open>ET.fromstring\<close>, \<open>None\<close>
  when either raises; \<open>page_tracks\<close> is the \<open>src\<close> attribute of each subtitle track element
  of the page source, \<open>None\<close> when reading or parsing the page raises. \<open>download_dir\<close> and
  \<open>tool_path\<close> are the module constants \<open>DOWNLOAD_DIR\<close> and \<open>N_M3U8DL_RE_PATH\<close>, which
  depend on the home directory; \<open>bracketed_host_ok\<close> is the check of a bracketed host
  inside \<open>urlparse\<close>. Calls that the source does not guard (\<open>driver.get\<close>,
  \<open>os.makedirs\<close>, \<open>os.remove\<close>, the rename inside the mux step) are taken to return.
\<close>

record env =
  video_appears :: bool
  network_items :: "string option list"
  http_get_xml :: "string \<Rightarrow> element option"
  page_tracks :: "string option list option"
  play_clickable :: bool
  operator_input :: string
  save_ok :: bool
  strftime_now :: string
  subtitle_download_ok :: bool
  tool_run :: tool_result
  path_exists :: "string \<Rightarrow> bool"
  mux_run :: mux_result
  rename_ok :: bool
  download_dir :: string
  tool_path :: string
  bracketed_host_ok :: "string \<Rightarrow> bool"

text \<open>
  The failure a \<open>None\<close> or \<open>False\<close> stands for: Python returns the same value at each
  failing \<open>return\<close>, and the tag names the \<open>return\<close> statement taken (the message printed
  before it), with the names of the specification.
\<close>

datatype failure =
    UnsupportedService
  | ExtractionTimeout
  | ManifestNotDetected
  | NoProtectionHeader
  | InvalidKeyFormat
  | NoKeyReturned
  | DownloadToolError

datatype exn = AttributeError | ValueError

definition log_event :: "event \<Rightarrow> state \<Rightarrow> state" where
  "log_event e st = st\<lparr>events := events st @ [e]\<rparr>"

section \<open>The key cache\<close>

text \<open>\<open>d[k] = v\<close> on a dict: an existing key keeps its place, a new key goes last.\<close>

fun dict_set :: "string \<Rightarrow> string \<Rightarrow> (string \<times> string) list \<Rightarrow> (string \<times> string) list" where
  "dict_set k v [] = [(k, v)]"
| "dict_set k v (p # ps) = (if fst p = k then (k, v) # ps else p # dict_set k v ps)"

definition load_widevine_proxy_data :: "state \<Rightarrow> state" where
  "load_widevine_proxy_data st =
     (case cache_file st of
        NoFile \<Rightarrow> st\<lparr>widevine_data := Some []\<rparr>
      | Unreadable \<Rightarrow> st\<lparr>widevine_data := Some []\<rparr>
      | Stored d \<Rightarrow> st\<lparr>widevine_data := Some d\<rparr>)"

text \<open>
  \<open>save_widevine_proxy_data\<close>: any exception is caught and printed; \<open>save_ok\<close> is whether
  the file could be opened and written. An unassigned \<open>widevine_data\<close> raises inside the
  \<open>try\<close> after the file has been opened for writing, which leaves it empty.
\<close>

definition save_widevine_proxy_data :: "env \<Rightarrow> state \<Rightarrow> state" where
  "save_widevine_proxy_data env st =
     (let st1 = log_event WriteCacheFile st
      in if save_ok env then
           (case widevine_data st1 of
              None \<Rightarrow> st1\<lparr>cache_file := Unreadable\<rparr>
            | Some d \<Rightarrow> st1\<lparr>cache_file := Stored d\<rparr>)
         else st1)"

definition initialize_browser :: "state \<Rightarrow> state" where
  "initialize_browser st = load_widevine_proxy_data ((log_event InitBrowser st)\<lparr>driver := True\<rparr>)"

section \<open>The service extractors\<close>

record stream_data =
  data_mpd_url :: string
  data_pssh :: "string option"
  data_subtitle_url :: "string option"
  data_program_id :: "string option"

text \<open>
  What an extractor returns: \<open>None\<close>, the tuple \<open>(None, None, None)\<close>, or the dict of the
  four entries \<open>mpd_url\<close>, \<open>pssh\<close>, \<open>subtitle_url\<close> and \<open>program_id\<close> (the record above).
\<close>

datatype extract_result =
    ReturnedNone failure
  | ReturnedNoneTuple failure
  | ReturnedData stream_data

text \<open>\<open>item.get('name', '')\<close>.\<close>

fun item_name :: "string option \<Rightarrow> string" where
  "item_name None = []"
| "item_name (Some n) = n"

text \<open>
  One round of the loop over the network entries. The loop variable is called \<open>url\<close>, as
  the parameter of the method is: the first component of the triple is that variable,
  the others are \<open>mpd_url\<close> and \<open>subtitle_url\<close>.
\<close>

definition classify_channel4 ::
  "string \<times> string option \<times> string option \<Rightarrow> string option
     \<Rightarrow> string \<times> string option \<times> string option" where
  "classify_channel4 acc item =
     (case acc of (u, m, s) \<Rightarrow>
        let url = item_name item
        in if str_in ''.mpd'' url then (url, Some url, s)
           else if str_in ''.vtt'' url \<or> str_in ''/subs.'' url then (url, m, Some url)
           else (url, m, s))"

definition classify_itv ::
  "string \<times> string option \<times> string option \<Rightarrow> string option
     \<Rightarrow> string \<times> string option \<times> string option" where
  "classify_itv acc item =
     (case acc of (u, m, s) \<Rightarrow>
        let url = item_name item
        in if str_in ''.mpd'' url \<or> str_in ''.ism/'' url then (url, Some url, s)
           else if str_in ''.vtt'' url \<or> str_in ''/subs.'' url \<or> str_in ''subtitles'' url
                then (url, m, Some url)
           else (url, m, s))"

definition classify_channel5 ::
  "string \<times> string option \<times> string option \<Rightarrow> string option
     \<Rightarrow> string \<times> string option \<times> string option" where
  "classify_channel5 acc item =
     (case acc of (u, m, s) \<Rightarrow>
        let url = item_name item
        in if str_in ''.mpd'' url then (url, Some url, s)
           else if str_in ''.vtt'' url \<or> str_in ''subtitles'' url then (url, m, Some url)
           else (url, m, s))"

text \<open>
  Lines 177 to 189, entered when no subtitle URL was seen: the first subtitle track of the
  page source, a \<open>src\<close> that does not start with \<open>http\<close> being put after the scheme and
  network location of \<open>url\<close>. When \<open>urlparse\<close> raises, the \<open>except\<close> clause leaves
  \<open>subtitle_url\<close> with the \<open>src\<close> assigned at line 183.
\<close>

definition subtitle_from_page :: "env \<Rightarrow> string \<Rightarrow> string option \<Rightarrow> string option" where
  "subtitle_from_page env url subtitle =
     (case page_tracks env of
        None \<Rightarrow> subtitle
      | Some [] \<Rightarrow> subtitle
      | Some (src # rest) \<Rightarrow>
          if truthy src \<and> \<not> startswith (the src) ''http''
               \<and> \<not> urlparse_raises (bracketed_host_ok env) url
          then Some (urlparse_scheme url @ ''://'' @ urlparse_netloc url @ the src)
          else src)"

text \<open>The opening lines shared by the three extractors, up to the wait for the video element.\<close>

definition open_page :: "provider \<Rightarrow> state \<Rightarrow> string \<Rightarrow> state" where
  "open_page p st url =
     (let st0 = log_event (CallExtractor p url) st;
          st1 = (if \<not> driver st0 then initialize_browser st0 else st0);
          st2 = log_event (Navigate url) st1
      in log_event WaitVideo st2)"

definition extract_channel4_data :: "env \<Rightarrow> state \<Rightarrow> string \<Rightarrow> extract_result \<times> state" where
  "extract_channel4_data env st url =
     (let st3 = open_page Channel4 st url
      in if \<not> video_appears env then (ReturnedNoneTuple ExtractionTimeout, st3)
         else
           let st4 = log_event ReadNetworkEntries st3
           in (case foldl classify_channel4 (url, None, None) (network_items env) of
                 (url, mpd_url, subtitle_url) \<Rightarrow>
                   if \<not> truthy mpd_url then (ReturnedNoneTuple ManifestNotDetected, st4)
                   else
                     let st5 = log_event (HttpGet (the mpd_url)) st4;
                         pssh = extract_pssh (http_get_xml env (the mpd_url));
                         st6 = (if \<not> truthy subtitle_url then log_event ReadPageSource st5 else st5);
                         subtitle_url' = (if \<not> truthy subtitle_url
                                      then subtitle_from_page env url subtitle_url else subtitle_url)
                     in (ReturnedData \<lparr>data_mpd_url = the mpd_url, data_pssh = pssh, data_subtitle_url = subtitle_url',
                                        data_program_id = search_program_digits url\<rparr>, st6)))"

definition extract_itv_data :: "env \<Rightarrow> state \<Rightarrow> string \<Rightarrow> extract_result \<times> state" where
  "extract_itv_data env st url =
     (let st3 = open_page ITV st url
      in if \<not> video_appears env then (ReturnedNone ExtractionTimeout, st3)
         else
           let st4 = log_event ReadNetworkEntries st3
           in (case foldl classify_itv (url, None, None) (network_items env) of
                 (url, mpd_url, subtitle_url) \<Rightarrow>
                   if \<not> truthy mpd_url then (ReturnedNone ManifestNotDetected, st4)
                   else
                     let st5 = log_event (HttpGet (the mpd_url)) st4;
                         pssh = extract_pssh (http_get_xml env (the mpd_url))
                     in (ReturnedData \<lparr>data_mpd_url = the mpd_url, data_pssh = pssh, data_subtitle_url = subtitle_url,
                                        data_program_id = search_program_alnum url\<rparr>, st5)))"

definition extract_channel5_data :: "env \<Rightarrow> state \<Rightarrow> string \<Rightarrow> extract_result \<times> state" where
  "extract_channel5_data env st url =
     (let st3 = open_page Channel5 st url
      in if \<not> video_appears env then (ReturnedNone ExtractionTimeout, st3)
         else
           let st4 = log_event ReadNetworkEntries st3
           in (case foldl classify_channel5 (url, None, None) (network_items env) of
                 (url, mpd_url, subtitle_url) \<Rightarrow>
                   if \<not> truthy mpd_url then (ReturnedNone ManifestNotDetected, st4)
                   else
                     let st5 = log_event (HttpGet (the mpd_url)) st4;
                         pssh = extract_pssh (http_get_xml env (the mpd_url))
                     in (ReturnedData \<lparr>data_mpd_url = the mpd_url, data_pssh = pssh, data_subtitle_url = subtitle_url,
                                        data_program_id = search_program_alnum url\<rparr>, st5)))"

section \<open>The key resolver\<close>

datatype key_result = KeyReturned string | KeyNone failure | KeyRaised exn

text \<open>
  \<open>get_drm_key\<close>. The key identifier decoded from the header is only printed as a hint and
  is left out. The last branch is lines 417 to 432: \<open>kid\<close> and \<open>key\<close> are computed from the
  answer and not used; what is stored and returned is \<open>key_input\<close>.
\<close>

definition get_drm_key ::
  "env \<Rightarrow> state \<Rightarrow> string option \<Rightarrow> string \<Rightarrow> string \<Rightarrow> key_result \<times> state" where
  "get_drm_key env st pssh url service_name =
     (if \<not> truthy pssh then (KeyNone NoProtectionHeader, st)
      else
        (case widevine_data st of
           None \<Rightarrow> (KeyRaised AttributeError, st)
         | Some cache \<Rightarrow>
             (case map_of cache (the pssh) of
                Some cached \<Rightarrow> (KeyReturned cached, st)
              | None \<Rightarrow>
                  let st1 = (if \<not> driver st then initialize_browser st else st);
                      st2 = log_event (Navigate url) st1;
                      st3 = (if play_clickable env then log_event ClickPlay st2 else st2);
                      st4 = log_event Prompt st3;
                      key_input = strip (operator_input env)
                  in if CHR '':'' \<in> set key_input then
                       let st5 = st4\<lparr>widevine_data :=
                                   map_option (dict_set (the pssh) key_input) (widevine_data st4)\<rparr>;
                           st6 = save_widevine_proxy_data env st5
                       in (KeyReturned key_input, st6)
                     else (KeyNone InvalidKeyFormat, st4))))"

section \<open>Subtitle download, decryption and muxing\<close>

definition USER_AGENT :: string where
  "USER_AGENT =
     ''Mozilla/5.0 (Macintosh; Intel Mac OS X 10.15; rv:138.0) Gecko/20100101 Firefox/138.0''"

definition TEMP_DIR :: "env \<Rightarrow> string" where
  "TEMP_DIR env = path_join (download_dir env) ''temp''"

definition download_subtitle ::
  "env \<Rightarrow> state \<Rightarrow> string option \<Rightarrow> string \<Rightarrow> string option \<times> state" where
  "download_subtitle env st subtitle_url output_path =
     (if \<not> truthy subtitle_url then (None, st)
      else
        let st1 = log_event (FetchSubtitle (the subtitle_url) output_path) st
        in if subtitle_download_ok env then (Some output_path, st1) else (None, st1))"

text \<open>
  \<open>mux_subtitle_into_video\<close>: the Boolean is whether an exception leaves the method. Only
  \<open>CalledProcessError\<close> is caught there.
\<close>

definition mux_subtitle_into_video :: "env \<Rightarrow> state \<Rightarrow> string \<Rightarrow> string \<Rightarrow> bool \<times> state" where
  "mux_subtitle_into_video env st video_path subtitle_path =
     (let output_path = splitext_root video_path @ ''_with_subs.mkv'';
          cmd = [''ffmpeg'', ''-i'', video_path, ''-i'', subtitle_path,
                 ''-c'', ''copy'', ''-c:s'', ''mov_text'', output_path];
          st1 = log_event (RunFfmpeg cmd) st
      in case mux_run env of
           MuxOk \<Rightarrow>
             (False, log_event (RenameFile output_path video_path)
                       (log_event (RemoveFile video_path) st1))
         | MuxCalledProcessError \<Rightarrow> (False, st1)
         | MuxOtherError \<Rightarrow> (True, st1))"

definition tool_command :: "env \<Rightarrow> string \<Rightarrow> string \<Rightarrow> string \<Rightarrow> string \<Rightarrow> string list" where
  "tool_command env mpd_url drm_key output_name output_dir =
     [''dotnet'', tool_path env,
      ''--url'', mpd_url,
      ''--key'', drm_key,
      ''--saveName'', output_name,
      ''--workDir'', output_dir,
      ''--useSystemProxy'', ''true'',
      ''--autoSelect'',
      ''--binaryMerge'',
      ''--header'', ''User-Agent: '' @ USER_AGENT,
      ''--header'', ''Accept: */*'',
      ''--header'', ''Referer: '' @ urlparse_netloc mpd_url]"

text \<open>
  What \<open>download_and_decrypt\<close> does: it returns a path or \<open>None\<close>, or an exception leaves
  it.
\<close>

datatype download_result = DownloadRaised exn | DownloadReturned "string option"

text \<open>
  \<open>download_and_decrypt\<close>. The command is built before the \<open>try\<close> block, after the work
  directory has been made: a ValueError of \<open>urlparse\<close> at line 472 leaves the method. Every
  exception raised inside the \<open>try\<close> block (the tool cannot be started, the mux step raises,
  the rename fails) ends in \<open>return None\<close>.
\<close>

definition download_and_decrypt ::
  "env \<Rightarrow> state \<Rightarrow> string \<Rightarrow> string \<Rightarrow> string \<Rightarrow> string option \<Rightarrow> download_result \<times> state" where
  "download_and_decrypt env st mpd_url drm_key output_name subtitle_path =
     (let output_dir = path_join (download_dir env) output_name;
          st1 = log_event (MakeDirs output_dir) st
      in if urlparse_raises (bracketed_host_ok env) mpd_url then (DownloadRaised ValueError, st1)
         else
           let cmd = tool_command env mpd_url drm_key output_name output_dir;
               st2 = log_event (RunTool cmd) st1
           in case tool_run env of
                PopenFailed \<Rightarrow> (DownloadReturned None, st2)
              | Exited returncode error \<Rightarrow>
                  if returncode = 0 then
                    let mkv = path_join output_dir (output_name @ ''.mkv'');
                        expected_output =
                          (if \<not> path_exists env mkv
                           then path_join output_dir (output_name @ ''.mp4'') else mkv)
                    in if path_exists env expected_output then
                         (case (if truthy subtitle_path \<and> path_exists env (the subtitle_path)
                                then mux_subtitle_into_video env st2 expected_output
                                       (the subtitle_path)
                                else (False, st2)) of
                            (True, st3) \<Rightarrow> (DownloadReturned None, st3)
                          | (False, st3) \<Rightarrow>
                              let final_output =
                                    path_join (download_dir env) (output_name @ ''_FINAL.mkv'');
                                  st4 = log_event (RenameFile expected_output final_output) st3
                              in if rename_ok env then (DownloadReturned (Some final_output), st4)
                                 else (DownloadReturned None, st4))
                       else (DownloadReturned None, st2)
                  else (DownloadReturned None,
                        log_event (PrintToolError returncode error) st2))"

section \<open>The orchestrator\<close>

text \<open>
  The outcome of \<open>process_url\<close>: \<open>Success\<close> is \<open>return True\<close> (with the final file that
  was printed), \<open>Failed\<close> is \<open>return False\<close>, \<open>JobRaised\<close> is an exception that leaves the
  method.
\<close>

datatype job_outcome = Success string | Failed failure | JobRaised exn

text \<open>How an f-string shows an optional string: \<open>None\<close> is shown as the text \<open>None\<close>.\<close>

fun format_value :: "string option \<Rightarrow> string" where
  "format_value None = ''None''"
| "format_value (Some s) = s"

text \<open>
  Lines 579 to 581. \<open>data.get("program_id", "program")\<close> gives the default only for a dict
  without the key; the dict an extractor returns always has it, with the value \<open>None\<close> when
  no identifier was found, so the entry itself is what is formatted.
\<close>

definition output_name_of :: "string \<Rightarrow> stream_data \<Rightarrow> string \<Rightarrow> string" where
  "output_name_of service_name data timestamp =
     (let program_id = data_program_id data
      in filter (\<lambda>c. c \<noteq> CHR '' '') service_name @ ''-'' @ format_value program_id
           @ ''-'' @ timestamp)"

text \<open>Lines 547 to 562: the service is found by looking for the markers in the whole URL.\<close>

definition detect_service ::
  "string \<Rightarrow> (string \<times> (env \<Rightarrow> state \<Rightarrow> string \<Rightarrow> extract_result \<times> state)) option" where
  "detect_service url =
     (if str_in ''channel4.com'' url \<or> str_in ''all4.com'' url
        then Some (''Channel 4'', extract_channel4_data)
      else if str_in ''itv.com'' url \<or> str_in ''itvx.com'' url
        then Some (''ITV'', extract_itv_data)
      else if str_in ''channel5.com'' url \<or> str_in ''my5.tv'' url
        then Some (''Channel 5'', extract_channel5_data)
      else None)"

text \<open>
  Lines 578 to 603, once the data and the key are there; \<open>strftime_now\<close> is what
  \<open>time.strftime\<close> returns. An exception that leaves \<open>download_and_decrypt\<close> is not
  caught here and leaves \<open>process_url\<close>.
\<close>

definition download_stage ::
  "env \<Rightarrow> state \<Rightarrow> string \<Rightarrow> stream_data \<Rightarrow> string \<Rightarrow> job_outcome \<times> state" where
  "download_stage env st service_name data drm_key =
     (let output_name = output_name_of service_name data (strftime_now env);
          (subtitle_path, st1) =
             (if truthy (data_subtitle_url data)
              then download_subtitle env st (data_subtitle_url data)
                     (path_join (TEMP_DIR env) (output_name @ ''.vtt''))
              else (None, st))
      in case download_and_decrypt env st1 (data_mpd_url data) drm_key output_name
                subtitle_path of
           (DownloadRaised e, st2) \<Rightarrow> (JobRaised e, st2)
         | (DownloadReturned output_file, st2) \<Rightarrow>
             if truthy output_file then (Success (the output_file), st2)
             else (Failed DownloadToolError, st2))"

text \<open>
  \<open>process_url\<close>. In \<open>not data or not data.get("mpd_url")\<close> the tuple
  \<open>(None, None, None)\<close> is true, being a tuple of three, and has no \<open>get\<close>: the test
  raises AttributeError.
\<close>

definition process_url :: "env \<Rightarrow> state \<Rightarrow> string \<Rightarrow> job_outcome \<times> state" where
  "process_url env st url =
     (case detect_service url of
        None \<Rightarrow> (Failed UnsupportedService, st)
      | Some (service_name, extract_func) \<Rightarrow>
          (case extract_func env st url of
             (ReturnedNone f, st1) \<Rightarrow> (Failed f, st1)
           | (ReturnedNoneTuple f, st1) \<Rightarrow> (JobRaised AttributeError, st1)
           | (ReturnedData data, st1) \<Rightarrow>
               if data_mpd_url data = [] then (Failed ManifestNotDetected, st1)
               else
                 (case get_drm_key env st1 (data_pssh data) url service_name of
                    (KeyRaised e, st2) \<Rightarrow> (JobRaised e, st2)
                  | (KeyNone f, st2) \<Rightarrow> (Failed f, st2)
                  | (KeyReturned drm_key, st2) \<Rightarrow>
                      if drm_key = [] then (Failed NoKeyReturned, st2)
                      else download_stage env st2 service_name data drm_key)))"

section \<open>Notions used in the statements\<close>

text \<open>The calls made between two states of the same run.\<close>

definition new_events :: "state \<Rightarrow> state \<Rightarrow> event list" where
  "new_events st st' = drop (length (events st)) (events st')"

text \<open>
  The calls of the extraction and key resolution steps; the calls of the mux and rename
  steps; the start of the download tool; the entry into an extractor.
\<close>

fun session_event :: "event \<Rightarrow> bool" where
  "session_event (MakeDirs d) = False"
| "session_event (FetchSubtitle u p) = False"
| "session_event (RunTool c) = False"
| "session_event (PrintToolError r e) = False"
| "session_event (RunFfmpeg c) = False"
| "session_event (RemoveFile p) = False"
| "session_event (RenameFile a b) = False"
| "session_event e = True"

fun mux_or_rename :: "event \<Rightarrow> bool" where
  "mux_or_rename (RunFfmpeg c) = True"
| "mux_or_rename (RemoveFile p) = True"
| "mux_or_rename (RenameFile a b) = True"
| "mux_or_rename e = False"

fun is_run_tool :: "event \<Rightarrow> bool" where
  "is_run_tool (RunTool c) = True"
| "is_run_tool e = False"

fun is_call_extractor :: "event \<Rightarrow> bool" where
  "is_call_extractor (CallExtractor p u) = True"
| "is_call_extractor e = False"

text \<open>The extractors entered between two states, in order.\<close>

definition extractor_calls :: "state \<Rightarrow> state \<Rightarrow> event list" where
  "extractor_calls st st' = filter is_call_extractor (new_events st st')"

text \<open>
  \<open>grows P st st'\<close>: the log of \<open>st'\<close> is the log of \<open>st\<close> followed by calls that satisfy
  \<open>P\<close>. \<open>starts_call p url st st'\<close>: the log of \<open>st'\<close> is the log of \<open>st\<close>, the entry into the
  extractor of \<open>p\<close>, and calls that enter no extractor.
\<close>

definition grows :: "(event \<Rightarrow> bool) \<Rightarrow> state \<Rightarrow> state \<Rightarrow> bool" where
  "grows P st st' = (\<exists>xs. events st' = events st @ xs \<and> list_all P xs)"

definition starts_call :: "provider \<Rightarrow> string \<Rightarrow> state \<Rightarrow> state \<Rightarrow> bool" where
  "starts_call p url st st' =
     (\<exists>xs. events st' = events st @ CallExtractor p url # xs
           \<and> list_all (\<lambda>e. \<not> is_call_extractor e) xs)"

text \<open>The domain markers of lines 550 to 556, and whether one of them occurs in the URL.\<close>

definition markers :: "provider \<Rightarrow> string list" where
  "markers p = (case p of Channel4 \<Rightarrow> [''channel4.com'', ''all4.com'']
      | ITV \<Rightarrow> [''itv.com'', ''itvx.com'']
      | Channel5 \<Rightarrow> [''channel5.com'', ''my5.tv''])"

definition url_mentions :: "provider \<Rightarrow> string \<Rightarrow> bool" where
  "url_mentions p url = list_ex (\<lambda>m. str_in m url) (markers p)"

text \<open>
  The reading of the specification, for comparison with \<open>url_mentions\<close>: a marker occurs
  in the host of the URL, the network location as \<open>urlparse\<close> gives it.
\<close>

definition spec_host_matches :: "provider \<Rightarrow> string \<Rightarrow> bool" where
  "spec_host_matches p url = list_ex (\<lambda>m. str_in m (urlparse_netloc url)) (markers p)"

definition endswith :: "string \<Rightarrow> string \<Rightarrow> bool" where
  "endswith s suffix = startswith (rev s) (rev suffix)"

text \<open>Lines 486 to 489: the container file looked for after the tool has ended.\<close>

definition expected_output_of :: "env \<Rightarrow> string \<Rightarrow> string" where
  "expected_output_of env output_name =
     (let output_dir = path_join (download_dir env) output_name;
          mkv = path_join output_dir (output_name @ ''.mkv'')
      in if \<not> path_exists env mkv then path_join output_dir (output_name @ ''.mp4'') else mkv)"

text \<open>
  The calls of \<open>mux_subtitle_into_video\<close> that returns: ffmpeg writes
  \<open>_with_subs.mkv\<close> next to the video; when it succeeds the video is removed and the new
  file renamed to the name of the video.
\<close>

definition mux_calls :: "env \<Rightarrow> string \<Rightarrow> string \<Rightarrow> event list" where
  "mux_calls env video_path subtitle_path =
     (let output_path = splitext_root video_path @ ''_with_subs.mkv''
      in RunFfmpeg [''ffmpeg'', ''-i'', video_path, ''-i'', subtitle_path,
                    ''-c'', ''copy'', ''-c:s'', ''mov_text'', output_path]
         # (if mux_run env = MuxOk
            then [RemoveFile video_path, RenameFile output_path video_path] else []))"

text \<open>
  The payload elements the two nested loops visit, in the order of the visits, and the test
  of the permissive scan.
\<close>

definition namespaced_payloads :: "element \<Rightarrow> element list" where
  "namespaced_payloads root = concat (map findall_cenc_pssh (findall_protection root))"

definition permissive_hit :: "element \<Rightarrow> bool" where
  "permissive_hit e = (str_in ''pssh'' (lower (tag e)) \<and> truthy (etext e))"

section \<open>Example inputs\<close>

text \<open>A downloader after \<open>__init__\<close>, and one with an open session and an empty cache.\<close>

definition st_fresh :: state where
  "st_fresh = \<lparr>driver = False, widevine_data = None, cache_file = NoFile, events = []\<rparr>"

definition st_open :: state where
  "st_open = \<lparr>driver = True, widevine_data = Some [], cache_file = NoFile, events = []\<rparr>"

text \<open>
  A downloader whose session has been closed, with an empty mapping and a cache file that
  holds an entry.
\<close>

definition st_closed_stale :: state where
  "st_closed_stale =
     \<lparr>driver = False, widevine_data = Some [],
      cache_file = Stored [(''ZZ'', ''k2:v2'')], events = []\<rparr>"

text \<open>
  A downloader with an open session whose cache holds the entry of the scenario of the
  specification.
\<close>

definition st_cached :: state where
  "st_cached =
     \<lparr>driver = True,
      widevine_data =
        Some [(''QUJD'', ''11112222333344445555666677778888:99990000aaaabbbbccccddddeeeeffff'')],
      cache_file =
        Stored [(''QUJD'', ''11112222333344445555666677778888:99990000aaaabbbbccccddddeeeeffff'')],
      events = []\<rparr>"

definition cenc_pssh :: "string option \<Rightarrow> element" where
  "cenc_pssh t = Element CENC_PSSH_TAG [] t []"

definition widevine_protection :: "element list \<Rightarrow> element" where
  "widevine_protection cs =
     Element CONTENT_PROTECTION_TAG [(''schemeIdUri'', WIDEVINE_SCHEME)] None cs"

definition manifest_one_payload :: element where
  "manifest_one_payload =
     Element ''{urn:mpeg:dash:schema:mpd:2011}MPD'' [] None
       [widevine_protection [cenc_pssh (Some ''QUJD'')]]"

definition manifest_two_payloads :: element where
  "manifest_two_payloads =
     Element ''{urn:mpeg:dash:schema:mpd:2011}MPD'' [] None
       [Element ''{urn:mpeg:dash:schema:mpd:2011}AdaptationSet'' [] None
          [widevine_protection [cenc_pssh (Some ''AAAA'')]],
        Element ''{urn:mpeg:dash:schema:mpd:2011}AdaptationSet'' [] None
          [widevine_protection [cenc_pssh (Some '' BBBB '')]]]"

definition manifest_blank_payload :: element where
  "manifest_blank_payload =
     Element ''{urn:mpeg:dash:schema:mpd:2011}MPD'' [] None
       [Element ''pssh'' [] (Some ''CCCC'') [],
        widevine_protection [cenc_pssh (Some ''  '')]]"

definition manifest_root_pssh :: element where
  "manifest_root_pssh = Element ''pssh'' [] (Some ''DDDD'') []"

definition manifest_plain_pssh :: element where
  "manifest_plain_pssh =
     Element ''MPD'' [] None
       [Element ''ContentProtection'' [(''schemeIdUri'', WIDEVINE_SCHEME)] None
          [Element ''pssh'' [] (Some ''QUJD'') []]]"

definition manifest_nested_protection :: element where
  "manifest_nested_protection =
     Element ''{urn:mpeg:dash:schema:mpd:2011}MPD'' [] None
       [widevine_protection
          [widevine_protection [cenc_pssh (Some ''AAAA'')],
           cenc_pssh (Some ''BBBB'')]]"

definition manifest_root_protection :: element where
  "manifest_root_protection =
     widevine_protection [Element ''pssh'' [] (Some ''FIRST'') [], cenc_pssh (Some ''SECOND'')]"

definition manifest_clear :: element where
  "manifest_clear = Element ''MPD'' [] None [Element ''Period'' [] None []]"

text \<open>
  A job in which every collaborator answers: the player requests one manifest, the operator
  types a key pair in upper case with spaces around it, the tool ends with code 0. No URL of
  the examples has a bracket, so the check of bracketed hosts is never asked.
\<close>

definition env_ok :: env where
  "env_ok = \<lparr>video_appears = True,
             network_items = [Some ''https://cdn.example.net/999/manifest.mpd''],
             http_get_xml = (\<lambda>u. Some manifest_one_payload),
             page_tracks = Some [],
             play_clickable = True,
             operator_input = '' ABCD:EF01 '',
             save_ok = True,
             strftime_now = ''20250101_120000'',
             subtitle_download_ok = True,
             tool_run = Exited 0 [],
             path_exists = (\<lambda>p. True),
             mux_run = MuxOk,
             rename_ok = True,
             download_dir = ''/dl'',
             tool_path = ''/tools/N_m3u8DL-RE.dll'',
             bracketed_host_ok = (\<lambda>h. False)\<rparr>"

definition env_bad_answer :: env where
  "env_bad_answer = env_ok\<lparr>operator_input := ''not a key''\<rparr>"

definition env_timeout :: env where
  "env_timeout = env_ok\<lparr>video_appears := False\<rparr>"

definition env_tool_fails :: env where
  "env_tool_fails = env_ok\<lparr>tool_run := Exited 1 ''HTTP 403''\<rparr>"

definition env_mp4 :: env where
  "env_mp4 = env_ok\<lparr>path_exists := (\<lambda>p. p = ''/dl/out/out.mp4'')\<rparr>"

definition env_mp4_subtitle :: env where
  "env_mp4_subtitle =
     env_ok\<lparr>path_exists := (\<lambda>p. p = ''/dl/out/out.mp4'' \<or> p = ''/dl/temp/out.vtt'')\<rparr>"

definition env_no_id :: env where
  "env_no_id =
     env_ok\<lparr>network_items :=
              [Some ''https://itvpnpdotcom.cdn.example.net/v1.2/a-b/manifest.mpd?x=1'']\<rparr>"

definition page_channel4 :: string where
  "page_channel4 = ''https://www.channel4.com/programmes/foo/on-demand/12345-001''"

definition page_itv :: string where
  "page_itv = ''https://www.itv.com/watch/show/1a2b3c''"

definition page_channel5 :: string where
  "page_channel5 = ''https://www.channel5.com/show/the-show/season-1/episode-1''"

definition page_other :: string where
  "page_other = ''https://www.bbc.co.uk/iplayer/episode/m000abcd''"

definition page_elsewhere :: string where
  "page_elsewhere = ''https://example.org/itv.com''"

definition page_itv_from_channel4 :: string where
  "page_itv_from_channel4 = ''https://www.itv.com/watch?from=channel4.com''"

text \<open>What \<open>extract_itv_data\<close> returns for \<open>page_itv\<close> in a fresh downloader.\<close>

definition data_itv :: stream_data where
  "data_itv =
     \<lparr>data_mpd_url = ''https://cdn.example.net/999/manifest.mpd'', data_pssh = Some ''QUJD'',
      data_subtitle_url = None, data_program_id = Some ''999''\<rparr>"

definition st_after_itv :: state where
  "st_after_itv =
     \<lparr>driver = True, widevine_data = Some [], cache_file = NoFile,
      events = [CallExtractor ITV ''https://www.itv.com/watch/show/1a2b3c'', InitBrowser,
                Navigate ''https://www.itv.com/watch/show/1a2b3c'', WaitVideo,
                ReadNetworkEntries, HttpGet ''https://cdn.example.net/999/manifest.mpd'']\<rparr>"

section \<open>The log and the fields of the state\<close>

lemma log_event_simps [simp]:
  "driver (log_event e st) = driver st"
  "widevine_data (log_event e st) = widevine_data st"
  "cache_file (log_event e st) = cache_file st"
  "events (log_event e st) = events st @ [e]"
  by (simp_all add: log_event_def)

lemma grows_refl [simp]: "grows P st st"
  by (simp add: grows_def)

lemma grows_trans: "grows P st st1 \<Longrightarrow> grows P st1 st2 \<Longrightarrow> grows P st st2"
  by (auto simp: grows_def)

lemma grows_log: "P e \<Longrightarrow> grows P st st1 \<Longrightarrow> grows P st (log_event e st1)"
  by (auto simp: grows_def)

lemma grows_weaken: "grows P st st' \<Longrightarrow> (\<And>e. P e \<Longrightarrow> Q e) \<Longrightarrow> grows Q st st'"
  by (auto simp: grows_def list_all_iff)

lemma grows_new_events: "grows P st st' \<Longrightarrow> events st' = events st @ new_events st st' \<and> list_all P (new_events st st')"
  by (auto simp: grows_def new_events_def)

lemma load_simps [simp]:
  "driver (load_widevine_proxy_data st) = driver st"
  "events (load_widevine_proxy_data st) = events st"
  "cache_file (load_widevine_proxy_data st) = cache_file st"
  "widevine_data (load_widevine_proxy_data st) \<noteq> None"
  by (simp_all add: load_widevine_proxy_data_def split: cache_file.splits)

lemma initialize_browser_simps [simp]:
  "driver (initialize_browser st)"
  "events (initialize_browser st) = events st @ [InitBrowser]"
  "cache_file (initialize_browser st) = cache_file st"
  by (simp_all add: initialize_browser_def)

lemma save_simps [simp]:
  "driver (save_widevine_proxy_data env st) = driver st"
  "widevine_data (save_widevine_proxy_data env st) = widevine_data st"
  "events (save_widevine_proxy_data env st) = events st @ [WriteCacheFile]"
  by (simp_all add: save_widevine_proxy_data_def Let_def split: option.splits)

lemma open_page_simps [simp]:
  "driver (open_page p st url)"
  "cache_file (open_page p st url) = cache_file st"
  by (simp_all add: open_page_def Let_def)

lemma open_page_events:
  "events (open_page p st url) =
     events st @ CallExtractor p url # (if driver st then [] else [InitBrowser]) @ [Navigate url, WaitVideo]"
  by (simp add: open_page_def Let_def)

lemma open_page_grows: "grows session_event st (open_page p st url)"
  by (simp add: grows_def open_page_events)

lemma open_page_starts: "starts_call p url st (open_page p st url)"
  by (simp add: starts_call_def open_page_events)

lemma starts_call_grows:
  "starts_call p url st st1 \<Longrightarrow> grows (\<lambda>e. \<not> is_call_extractor e) st1 st2 \<Longrightarrow>
     starts_call p url st st2"
  by (auto simp: starts_call_def grows_def)

lemma starts_call_calls:
  "starts_call p url st st' \<Longrightarrow> extractor_calls st st' = [CallExtractor p url]"
  by (auto simp: starts_call_def extractor_calls_def new_events_def list_all_iff filter_empty_conv)

lemma session_not_tool: "session_event e \<Longrightarrow> \<not> is_run_tool e \<and> \<not> mux_or_rename e"
  by (cases e) simp_all

lemma grows_no_tool:
  "grows session_event st st' \<Longrightarrow> \<not> list_ex is_run_tool (new_events st st')"
  by (auto simp: grows_def new_events_def list_all_iff list_ex_iff dest: session_not_tool)

section \<open>The manifest protection parser\<close>

lemma pssh_inner_loop_append:
  "pssh_inner_loop p (xs @ ys) =
     (case pssh_inner_loop p xs of
        (p', True) \<Rightarrow> (p', True)
      | (p', False) \<Rightarrow> pssh_inner_loop p' ys)"
  by (induction xs arbitrary: p) (auto split: option.splits)

lemma pssh_outer_loop_concat:
  "pssh_outer_loop p elems = pssh_inner_loop p (concat (map findall_cenc_pssh elems))"
  by (induction elems arbitrary: p)
     (auto simp: pssh_inner_loop_append split: prod.splits bool.splits)

lemma pssh_inner_loop_all_text:
  "list_all (\<lambda>e. etext e \<noteq> None) es \<Longrightarrow>
   pssh_inner_loop p es = ((if es = [] then p else Some (strip (the (etext (last es))))), False)"
  by (induction es arbitrary: p) (auto split: option.splits)

lemma pssh_fallback_loop_find:
  "pssh_fallback_loop p es =
     (case find permissive_hit es of None \<Rightarrow> p | Some e \<Rightarrow> Some (strip (the (etext e))))"
  by (induction es) (auto simp: permissive_hit_def)

text \<open>
  Claim C1, as the code has it. For every manifest body, take the namespaced
  ContentProtection elements with the common-encryption scheme identifier that lie below the
  root, in document order, and for each of them in turn the payload elements
  \<open>{urn:mpeg:cenc:2013}pssh\<close> below it, in document order; a payload below nested
  ContentProtection elements is taken once for each of them (\<open>namespaced_payloads\<close>). If
  at least one payload is taken, each payload taken has text, and the text of the last one
  taken is not blank, the parser returns the text of that last one, trimmed. If no payload
  is taken but there is, below the root, an element whose tag contains \<open>pssh\<close> in any case
  and whose text is not empty, the parser returns the trimmed text of the first such element
  in document order. If no payload is taken and there is no such element, or the body cannot
  be fetched and parsed, the parser returns nothing.
\<close>

theorem manifest_parser_cases:
  "(namespaced_payloads root \<noteq> []
      \<and> list_all (\<lambda>e. etext e \<noteq> None) (namespaced_payloads root)
      \<and> strip (the (etext (last (namespaced_payloads root)))) \<noteq> []
    \<longrightarrow> extract_pssh (Some root) = Some (strip (the (etext (last (namespaced_payloads root))))))
   \<and> (namespaced_payloads root = [] \<and> find permissive_hit (descendants root) = Some e
    \<longrightarrow> extract_pssh (Some root) = Some (strip (the (etext e))))
   \<and> (namespaced_payloads root = [] \<and> find permissive_hit (descendants root) = None
    \<longrightarrow> extract_pssh (Some root) = None)
   \<and> extract_pssh None = None"
  by (simp add: extract_pssh_def pssh_of_root_def pssh_outer_loop_concat pssh_inner_loop_all_text
        pssh_fallback_loop_find namespaced_payloads_def [symmetric])

text \<open>
  The three cases of C1 at manifests that meet their conditions: two protected adaptation
  sets, the manifest of the scenario of the specification (no namespace), and a manifest
  without protection.
\<close>

theorem manifest_parser_cases_witness:
  "namespaced_payloads manifest_two_payloads \<noteq> []
   \<and> list_all (\<lambda>e. etext e \<noteq> None) (namespaced_payloads manifest_two_payloads)
   \<and> extract_pssh (Some manifest_two_payloads) = Some ''BBBB''
   \<and> namespaced_payloads manifest_plain_pssh = []
   \<and> find permissive_hit (descendants manifest_plain_pssh)
       = Some (Element ''pssh'' [] (Some ''QUJD'') [])
   \<and> extract_pssh (Some manifest_plain_pssh) = Some ''QUJD''
   \<and> namespaced_payloads manifest_clear = []
   \<and> find permissive_hit (descendants manifest_clear) = None
   \<and> extract_pssh (Some manifest_clear) = None"
proof -
  have two: "namespaced_payloads manifest_two_payloads \<noteq> []"
      "list_all (\<lambda>e. etext e \<noteq> None) (namespaced_payloads manifest_two_payloads)"
      "strip (the (etext (last (namespaced_payloads manifest_two_payloads)))) = ''BBBB''"
    by code_simp+
  have plain: "namespaced_payloads manifest_plain_pssh = []"
      "find permissive_hit (descendants manifest_plain_pssh)
         = Some (Element ''pssh'' [] (Some ''QUJD'') [])"
      "strip (the (etext (Element ''pssh'' [] (Some ''QUJD'') []))) = ''QUJD''"
    by code_simp+
  have clear: "namespaced_payloads manifest_clear = []"
      "find permissive_hit (descendants manifest_clear) = None"
    by code_simp+
  have "extract_pssh (Some manifest_two_payloads) = Some ''BBBB''"
    using manifest_parser_cases [of manifest_two_payloads] two by simp
  moreover have "extract_pssh (Some manifest_plain_pssh) = Some ''QUJD''"
    using manifest_parser_cases [of manifest_plain_pssh "Element ''pssh'' [] (Some ''QUJD'') []"]
      plain by simp
  moreover have "extract_pssh (Some manifest_clear) = None"
    using manifest_parser_cases [of manifest_clear] clear by simp
  ultimately show ?thesis
    using two plain clear by simp
qed

text \<open>
  The order of the visits matters where ContentProtection elements are nested: the payloads
  are taken in the order \<open>AAAA\<close>, \<open>BBBB\<close>, \<open>AAAA\<close>, and the parser returns
  \<open>AAAA\<close>, which is not the last payload of the document. A ContentProtection element
  that is the root is not among the elements searched: its payload is not taken, and the
  permissive scan returns the first element below the root that it accepts.
\<close>

lemma nested_protection_visit_order:
  "map etext (namespaced_payloads manifest_nested_protection)
     = [Some ''AAAA'', Some ''BBBB'', Some ''AAAA'']
   \<and> extract_pssh (Some manifest_nested_protection) = Some ''AAAA''"
  by code_simp

lemma protection_as_root_not_searched:
  "namespaced_payloads manifest_root_protection = []
   \<and> extract_pssh (Some manifest_root_protection) = Some ''FIRST''"
  by code_simp

text \<open>
  C1 as it is written fails in three ways. With two protected adaptation sets the parser
  returns the text of the last payload, not that of the first. A namespaced payload whose
  text is blank gives way to the permissive scan, which here returns the text of another
  element. An element whose tag contains \<open>pssh\<close> is not found when it is the root.
\<close>

theorem manifest_parser_counterexample:
  "namespaced_payloads manifest_two_payloads = [cenc_pssh (Some ''AAAA''), cenc_pssh (Some '' BBBB '')]
   \<and> extract_pssh (Some manifest_two_payloads) \<noteq> Some (strip ''AAAA'')
   \<and> namespaced_payloads manifest_blank_payload = [cenc_pssh (Some ''  '')]
   \<and> extract_pssh (Some manifest_blank_payload) = Some ''CCCC''
   \<and> Some ''CCCC'' \<noteq> Some (strip ''  '')
   \<and> namespaced_payloads manifest_root_pssh = []
   \<and> permissive_hit manifest_root_pssh
   \<and> extract_pssh (Some manifest_root_pssh) = None"
  by code_simp

section \<open>The extractors\<close>

lemma truthy_the: "truthy x \<Longrightarrow> the x \<noteq> []"
  by (cases x) simp_all

lemma extract_channel4_driver: "driver (snd (extract_channel4_data env st url))"
  by (simp add: extract_channel4_data_def Let_def split: prod.splits)

lemma extract_itv_driver: "driver (snd (extract_itv_data env st url))"
  by (simp add: extract_itv_data_def Let_def split: prod.splits)

lemma extract_channel5_driver: "driver (snd (extract_channel5_data env st url))"
  by (simp add: extract_channel5_data_def Let_def split: prod.splits)

lemma extract_channel4_grows: "grows session_event st (snd (extract_channel4_data env st url))"
  using open_page_grows [of st Channel4 url]
  by (auto simp: extract_channel4_data_def Let_def grows_def split: prod.splits)

lemma extract_itv_grows: "grows session_event st (snd (extract_itv_data env st url))"
  using open_page_grows [of st ITV url]
  by (auto simp: extract_itv_data_def Let_def grows_def split: prod.splits)

lemma extract_channel5_grows: "grows session_event st (snd (extract_channel5_data env st url))"
  using open_page_grows [of st Channel5 url]
  by (auto simp: extract_channel5_data_def Let_def grows_def split: prod.splits)

lemma extract_channel4_starts: "starts_call Channel4 url st (snd (extract_channel4_data env st url))"
  using open_page_starts [of Channel4 url st]
  by (auto simp: extract_channel4_data_def Let_def starts_call_def split: prod.splits)

lemma extract_itv_starts: "starts_call ITV url st (snd (extract_itv_data env st url))"
  using open_page_starts [of ITV url st]
  by (auto simp: extract_itv_data_def Let_def starts_call_def split: prod.splits)

lemma extract_channel5_starts: "starts_call Channel5 url st (snd (extract_channel5_data env st url))"
  using open_page_starts [of Channel5 url st]
  by (auto simp: extract_channel5_data_def Let_def starts_call_def split: prod.splits)

lemma extract_channel4_mpd:
  "extract_channel4_data env st url = (ReturnedData data, st1) \<Longrightarrow> data_mpd_url data \<noteq> []"
  by (auto simp: extract_channel4_data_def Let_def dest: truthy_the split: prod.splits if_splits)

lemma extract_itv_mpd:
  "extract_itv_data env st url = (ReturnedData data, st1) \<Longrightarrow> data_mpd_url data \<noteq> []"
  by (auto simp: extract_itv_data_def Let_def dest: truthy_the split: prod.splits if_splits)

lemma extract_channel5_mpd:
  "extract_channel5_data env st url = (ReturnedData data, st1) \<Longrightarrow> data_mpd_url data \<noteq> []"
  by (auto simp: extract_channel5_data_def Let_def dest: truthy_the split: prod.splits if_splits)

lemma detect_service_cases:
  "detect_service url = Some (service_name, extract_func) \<Longrightarrow>
     extract_func = extract_channel4_data \<or> extract_func = extract_itv_data
       \<or> extract_func = extract_channel5_data"
  by (auto simp: detect_service_def split: if_splits)

lemma extract_func_driver:
  "detect_service url = Some (service_name, extract_func) \<Longrightarrow> driver (snd (extract_func env st u))"
  using detect_service_cases extract_channel4_driver extract_itv_driver extract_channel5_driver
  by blast

lemma extract_func_grows:
  "detect_service url = Some (service_name, extract_func) \<Longrightarrow>
     grows session_event st (snd (extract_func env st u))"
  using detect_service_cases extract_channel4_grows extract_itv_grows extract_channel5_grows
  by blast

lemma extract_func_mpd:
  "detect_service url = Some (service_name, extract_func) \<Longrightarrow>
   extract_func env st u = (ReturnedData data, st1) \<Longrightarrow> data_mpd_url data \<noteq> []"
  using detect_service_cases extract_channel4_mpd extract_itv_mpd extract_channel5_mpd
  by blast

text \<open>
  After the loop over the network entries, \<open>url\<close> is the name of the last entry: whenever
  the Channel 4 extractor returns data, the program identifier is the match of the pattern
  in that name, whatever the page URL was.
\<close>

lemma classify_channel4_fst: "fst (classify_channel4 acc item) = item_name item"
  by (cases acc) (simp add: classify_channel4_def Let_def)

lemma classify_channel4_loop:
  "foldl classify_channel4 acc items =
     (if items = [] then acc else
        (item_name (last items), snd (foldl classify_channel4 acc items)))"
proof (induction items rule: rev_induct)
  case Nil
  then show ?case by simp
next
  case (snoc item items)
  then show ?case
    using classify_channel4_fst [of "foldl classify_channel4 acc items" item]
    by (simp add: prod_eq_iff)
qed

lemma channel4_program_id_source:
  assumes "extract_channel4_data env st url = (ReturnedData data, st')"
  shows "network_items env \<noteq> []
         \<and> data_program_id data = search_program_digits (item_name (last (network_items env)))"
proof -
  obtain u m s where loop: "foldl classify_channel4 (url, None, None) (network_items env) = (u, m, s)"
    by (cases "foldl classify_channel4 (url, None, None) (network_items env)")
  from assms loop have m: "truthy m" and id: "data_program_id data = search_program_digits u"
    by (auto simp: extract_channel4_data_def Let_def split: if_splits)
  from m loop have ne: "network_items env \<noteq> []"
    by (cases "network_items env = []") auto
  with loop classify_channel4_loop [of "(url, None, None)" "network_items env"]
  have "u = item_name (last (network_items env))" by simp
  with ne id show ?thesis by simp
qed

text \<open>
  Claim C2 says that the program identifier is matched against the URL passed to the
  extractor and against no other URL seen during extraction. The code evaluated at the page
  \<open>https://www.channel4.com/programmes/foo/on-demand/12345-001\<close>, the player having
  requested \<open>https://cdn.example.net/999/manifest.mpd\<close>: the identifier returned is
  \<open>999\<close>, the match in the manifest URL, and not \<open>12345\<close>, the match in the page URL.
\<close>

theorem program_id_taken_from_network_entry:
  "fst (extract_channel4_data env_ok st_fresh page_channel4) =
     ReturnedData \<lparr>data_mpd_url = ''https://cdn.example.net/999/manifest.mpd'',
                   data_pssh = Some ''QUJD'', data_subtitle_url = None,
                   data_program_id = Some ''999''\<rparr>
   \<and> search_program_digits page_channel4 = Some ''12345''
   \<and> search_program_digits ''https://cdn.example.net/999/manifest.mpd'' = Some ''999''"
  by code_simp

section \<open>The key resolver\<close>

lemma get_drm_key_grows: "grows session_event st (snd (get_drm_key env st pssh url service_name))"
  by (auto simp: get_drm_key_def Let_def grows_def split: option.splits)

lemma get_drm_key_no_call:
  "grows (\<lambda>e. \<not> is_call_extractor e) st (snd (get_drm_key env st pssh url service_name))"
  by (auto simp: get_drm_key_def Let_def grows_def split: option.splits)

lemma get_drm_key_invalid_answer:
  assumes "truthy pssh" "widevine_data st = Some cache" "map_of cache (the pssh) = None"
    and "CHR '':'' \<notin> set (strip (operator_input env))"
  shows "fst (get_drm_key env st pssh url service_name) = KeyNone InvalidKeyFormat"
    and "cache_file (snd (get_drm_key env st pssh url service_name)) = cache_file st"
    and "driver st \<Longrightarrow> widevine_data (snd (get_drm_key env st pssh url service_name)) = widevine_data st"
    and "list_all (\<lambda>e. e \<noteq> WriteCacheFile) (new_events st (snd (get_drm_key env st pssh url service_name)))"
  using assms by (simp_all add: get_drm_key_def Let_def new_events_def)

lemma get_drm_key_valid_answer:
  assumes "truthy pssh" "widevine_data st = Some cache" "map_of cache (the pssh) = None"
    and "driver st" "CHR '':'' \<in> set (strip (operator_input env))"
  shows "fst (get_drm_key env st pssh url service_name) = KeyReturned (strip (operator_input env))"
    and "widevine_data (snd (get_drm_key env st pssh url service_name))
           = Some (dict_set (the pssh) (strip (operator_input env)) cache)"
  using assms by (simp_all add: get_drm_key_def Let_def)

text \<open>
  A header that is \<open>None\<close> or empty is no header: the guard of line 366 returns before the
  cache is looked at. When the resolver has to open the session itself, the mapping is
  loaded again from the file before the operator is asked.
\<close>

lemma get_drm_key_no_header:
  "\<not> truthy pssh \<Longrightarrow>
     get_drm_key env st pssh url service_name = (KeyNone NoProtectionHeader, st)"
  by (simp add: get_drm_key_def)

lemma get_drm_key_invalid_answer_closed_session:
  assumes "truthy pssh" "widevine_data st = Some cache" "map_of cache (the pssh) = None"
    and "CHR '':'' \<notin> set (strip (operator_input env))" and "\<not> driver st"
  shows "widevine_data (snd (get_drm_key env st pssh url service_name))
           = widevine_data (load_widevine_proxy_data st)"
  using assms
  by (simp add: get_drm_key_def Let_def initialize_browser_def load_widevine_proxy_data_def
        log_event_def split: cache_file.splits)

text \<open>
  Claim C3 says that an answer with the separator is stored and returned trimmed and in
  lower case. The code evaluated at the answer \<open>ABCD:EF01\<close> with a space on each side, for
  the header \<open>QUJD\<close> and an empty cache: the value returned, the entry of the mapping and the
  entry of the file are \<open>ABCD:EF01\<close>, trimmed but in upper case; the normalized form is
  \<open>abcd:ef01\<close>.
\<close>

theorem stored_key_not_lower_cased:
  "fst (get_drm_key env_ok st_open (Some ''QUJD'') page_itv ''ITV'') = KeyReturned ''ABCD:EF01''
   \<and> widevine_data (snd (get_drm_key env_ok st_open (Some ''QUJD'') page_itv ''ITV''))
       = Some [(''QUJD'', ''ABCD:EF01'')]
   \<and> cache_file (snd (get_drm_key env_ok st_open (Some ''QUJD'') page_itv ''ITV''))
       = Stored [(''QUJD'', ''ABCD:EF01'')]
   \<and> lower (strip (operator_input env_ok)) = ''abcd:ef01''"
  by code_simp

text \<open>
  Claim C4. For every protection header that is present (\<open>not pssh\<close> is false) and has an
  entry in the key cache, \<open>get_drm_key\<close> returns the cached value and leaves the downloader
  as it was, the log of calls included: no session is opened, no page is visited, no play
  control is activated, nothing is asked and nothing is written.
\<close>

theorem cache_hit_returns_cached:
  "truthy pssh \<Longrightarrow> widevine_data st = Some cache \<Longrightarrow> map_of cache (the pssh) = Some cached \<Longrightarrow>
   get_drm_key env st pssh url service_name = (KeyReturned cached, st)"
  by (simp add: get_drm_key_def)

theorem cache_hit_returns_cached_witness:
  "truthy (Some ''QUJD'')
   \<and> widevine_data st_cached
       = Some [(''QUJD'', ''11112222333344445555666677778888:99990000aaaabbbbccccddddeeeeffff'')]
   \<and> get_drm_key env_ok st_cached (Some ''QUJD'') page_itv ''ITV''
       = (KeyReturned ''11112222333344445555666677778888:99990000aaaabbbbccccddddeeeeffff'',
          st_cached)"
proof -
  let ?k = "''11112222333344445555666677778888:99990000aaaabbbbccccddddeeeeffff''"
  have present: "truthy (Some ''QUJD'')"
    by simp
  have cache: "widevine_data st_cached = Some [(''QUJD'', ?k)]"
    by (simp add: st_cached_def)
  have hit: "map_of [(''QUJD'', ?k)] (the (Some ''QUJD'')) = Some ?k"
    by simp
  show ?thesis
    using cache_hit_returns_cached [OF present cache hit, of env_ok page_itv "''ITV''"]
      present cache by simp
qed

text \<open>
  Claim C5, as the code has it. Whenever the resolver reaches the prompt (the header is
  present and not in the cache) and the answer has no separator \<open>:\<close>, it returns nothing
  on the invalid-format branch, none of its calls writes the cache file, and the file is
  what it was. The mapping is what it was when the session was open at the call; when the
  resolver has to open the session itself, the mapping is what opening the session loads
  from the file.
\<close>

theorem invalid_answer_resolver:
  assumes "truthy pssh" "widevine_data st = Some cache" "map_of cache (the pssh) = None"
    and "CHR '':'' \<notin> set (strip (operator_input env))"
  shows "fst (get_drm_key env st pssh url service_name) = KeyNone InvalidKeyFormat
       \<and> cache_file (snd (get_drm_key env st pssh url service_name)) = cache_file st
       \<and> widevine_data (snd (get_drm_key env st pssh url service_name))
           = (if driver st then widevine_data st
              else widevine_data (load_widevine_proxy_data st))
       \<and> list_all (\<lambda>e. e \<noteq> WriteCacheFile)
            (new_events st (snd (get_drm_key env st pssh url service_name)))"
proof (cases "driver st")
  case True
  with get_drm_key_invalid_answer [OF assms, of url service_name] show ?thesis
    by simp
next
  case False
  with get_drm_key_invalid_answer(1,2,4) [OF assms, of url service_name]
    get_drm_key_invalid_answer_closed_session [OF assms False, of url service_name]
  show ?thesis
    by simp
qed

text \<open>
  C5 with an open session and an empty cache, for the header \<open>QUJD\<close> and the answer
  \<open>not a key\<close>.
\<close>

theorem invalid_answer_resolver_witness:
  "truthy (Some ''QUJD'') \<and> widevine_data st_open = Some []
   \<and> CHR '':'' \<notin> set (strip (operator_input env_bad_answer))
   \<and> fst (get_drm_key env_bad_answer st_open (Some ''QUJD'') page_itv ''ITV'')
       = KeyNone InvalidKeyFormat
   \<and> cache_file (snd (get_drm_key env_bad_answer st_open (Some ''QUJD'') page_itv ''ITV''))
       = NoFile
   \<and> widevine_data (snd (get_drm_key env_bad_answer st_open (Some ''QUJD'') page_itv ''ITV''))
       = Some []"
proof -
  have present: "truthy (Some ''QUJD'')"
    by simp
  have miss: "widevine_data st_open = Some []" "map_of [] (the (Some ''QUJD'')) = None"
    by (simp_all add: st_open_def)
  have answer: "CHR '':'' \<notin> set (strip (operator_input env_bad_answer))"
    by code_simp
  have session: "driver st_open" "cache_file st_open = NoFile"
    by (simp_all add: st_open_def)
  show ?thesis
    using invalid_answer_resolver [OF present miss answer, of page_itv "''ITV''"]
      present miss(1) answer session
    by simp
qed

text \<open>
  C5 as it is written fails where the resolver opens the session itself. The session is
  closed, the mapping is empty and the file holds an entry for another header: after the
  answer \<open>not a key\<close> the resolver has returned nothing, and the mapping holds the entry of
  the file.
\<close>

theorem invalid_answer_counterexample:
  "widevine_data st_closed_stale = Some []
   \<and> fst (get_drm_key env_bad_answer st_closed_stale (Some ''QUJD'') page_itv ''ITV'')
       = KeyNone InvalidKeyFormat
   \<and> widevine_data
        (snd (get_drm_key env_bad_answer st_closed_stale (Some ''QUJD'') page_itv ''ITV''))
       = Some [(''ZZ'', ''k2:v2'')]
   \<and> widevine_data
        (snd (get_drm_key env_bad_answer st_closed_stale (Some ''QUJD'') page_itv ''ITV''))
       \<noteq> widevine_data st_closed_stale"
  by code_simp

text \<open>
  In a job the session is open when the resolver is called, the extractor having opened
  it: in every job that reaches the prompt, an answer without the separator makes the job
  fail with the invalid-format failure, and the mapping and the file of the key cache are
  what they were before the resolver was called.
\<close>

theorem invalid_answer_fails_cache_untouched:
  assumes detect: "detect_service url = Some (service_name, extract_func)"
    and extraction: "extract_func env st url = (ReturnedData data, st1)"
    and header: "truthy (data_pssh data)"
    and miss: "widevine_data st1 = Some cache" "map_of cache (the (data_pssh data)) = None"
    and answer: "CHR '':'' \<notin> set (strip (operator_input env))"
  shows "\<exists>st2. get_drm_key env st1 (data_pssh data) url service_name = (KeyNone InvalidKeyFormat, st2)
           \<and> process_url env st url = (Failed InvalidKeyFormat, st2)
           \<and> widevine_data st2 = widevine_data st1
           \<and> cache_file st2 = cache_file st1
           \<and> list_all (\<lambda>e. e \<noteq> WriteCacheFile) (new_events st1 st2)"
proof -
  obtain r st2 where key: "get_drm_key env st1 (data_pssh data) url service_name = (r, st2)"
    by (cases "get_drm_key env st1 (data_pssh data) url service_name")
  have open_session: "driver st1"
    using extract_func_driver [OF detect, of env st url] extraction by simp
  have r: "r = KeyNone InvalidKeyFormat"
    using get_drm_key_invalid_answer(1) [OF header miss answer, of url service_name] key by simp
  have disk: "cache_file st2 = cache_file st1"
    using get_drm_key_invalid_answer(2) [OF header miss answer, of url service_name] key by simp
  have mem: "widevine_data st2 = widevine_data st1"
    using get_drm_key_invalid_answer(3) [OF header miss answer open_session, of url service_name] key
    by simp
  have quiet: "list_all (\<lambda>e. e \<noteq> WriteCacheFile) (new_events st1 st2)"
    using get_drm_key_invalid_answer(4) [OF header miss answer, of url service_name] key by simp
  have mpd: "data_mpd_url data \<noteq> []"
    using extract_func_mpd [OF detect extraction] .
  have "process_url env st url = (Failed InvalidKeyFormat, st2)"
    using detect extraction mpd key r by (simp add: process_url_def)
  with key r disk mem quiet show ?thesis by simp
qed

theorem invalid_answer_fails_cache_untouched_witness:
  "detect_service page_itv = Some (''ITV'', extract_itv_data)
   \<and> extract_itv_data env_bad_answer st_fresh page_itv = (ReturnedData data_itv, st_after_itv)
   \<and> CHR '':'' \<notin> set (strip (operator_input env_bad_answer))
   \<and> fst (process_url env_bad_answer st_fresh page_itv) = Failed InvalidKeyFormat
   \<and> widevine_data (snd (process_url env_bad_answer st_fresh page_itv)) = Some []
   \<and> cache_file (snd (process_url env_bad_answer st_fresh page_itv)) = NoFile"
proof -
  have detect: "detect_service page_itv = Some (''ITV'', extract_itv_data)"
    by (simp add: detect_service_def page_itv_def)
  have extraction:
    "extract_itv_data env_bad_answer st_fresh page_itv = (ReturnedData data_itv, st_after_itv)"
    by code_simp
  have header: "truthy (data_pssh data_itv)"
    by code_simp
  have miss: "widevine_data st_after_itv = Some []" "map_of [] (the (data_pssh data_itv)) = None"
    by (simp_all add: st_after_itv_def)
  have answer: "CHR '':'' \<notin> set (strip (operator_input env_bad_answer))"
    by code_simp
  from invalid_answer_fails_cache_untouched [OF detect extraction header miss answer]
  obtain st2 where "process_url env_bad_answer st_fresh page_itv = (Failed InvalidKeyFormat, st2)"
      and "widevine_data st2 = widevine_data st_after_itv"
      and "cache_file st2 = cache_file st_after_itv"
    by blast
  then show ?thesis
    using detect extraction answer by (simp add: st_after_itv_def)
qed

section \<open>Download, decryption and muxing\<close>

lemma download_subtitle_no_call:
  "grows (\<lambda>e. \<not> is_call_extractor e) st (snd (download_subtitle env st subtitle_url output_path))"
  by (simp add: download_subtitle_def Let_def grows_def)

lemma mux_no_call:
  "grows (\<lambda>e. \<not> is_call_extractor e) st (snd (mux_subtitle_into_video env st v s))"
  by (auto simp: mux_subtitle_into_video_def Let_def grows_def split: mux_result.splits)

lemma mux_events:
  "events (snd (mux_subtitle_into_video env st v s)) = events st @ mux_calls env v s"
  by (simp add: mux_subtitle_into_video_def mux_calls_def Let_def split: mux_result.splits)

lemma download_and_decrypt_no_call:
  "grows (\<lambda>e. \<not> is_call_extractor e) st
     (snd (download_and_decrypt env st mpd_url drm_key output_name subtitle_path))"
proof -
  have step: "\<And>e s. \<not> is_call_extractor e \<Longrightarrow> grows (\<lambda>e. \<not> is_call_extractor e) st s \<Longrightarrow>
      grows (\<lambda>e. \<not> is_call_extractor e) st (log_event e s)"
    by (rule grows_log)
  show ?thesis
    unfolding download_and_decrypt_def Let_def
    by (auto split: tool_result.splits prod.splits bool.splits
          intro!: step grows_trans [OF _ mux_no_call]
          dest!: arg_cong [where f = snd])
qed

lemma download_and_decrypt_raises:
  assumes "urlparse_raises (bracketed_host_ok env) mpd_url"
  shows "download_and_decrypt env st mpd_url drm_key output_name subtitle_path =
           (DownloadRaised ValueError,
            log_event (MakeDirs (path_join (download_dir env) output_name)) st)"
  using assms by (simp add: download_and_decrypt_def Let_def)

lemma download_and_decrypt_nonzero:
  assumes "tool_run env = Exited returncode error" "returncode \<noteq> 0"
    and "\<not> urlparse_raises (bracketed_host_ok env) mpd_url"
  shows "download_and_decrypt env st mpd_url drm_key output_name subtitle_path =
           (DownloadReturned None, st\<lparr>events := events st @
              [MakeDirs (path_join (download_dir env) output_name),
               RunTool (tool_command env mpd_url drm_key output_name
                          (path_join (download_dir env) output_name)),
               PrintToolError returncode error]\<rparr>)"
  using assms by (simp add: download_and_decrypt_def Let_def log_event_def)

lemma download_and_decrypt_success:
  assumes "download_and_decrypt env st mpd_url drm_key output_name subtitle_path
             = (DownloadReturned (Some final_output), st')"
  shows "final_output = path_join (download_dir env) (output_name @ ''_FINAL.mkv'')"
    and "events st' = events st @
            [MakeDirs (path_join (download_dir env) output_name),
             RunTool (tool_command env mpd_url drm_key output_name
                        (path_join (download_dir env) output_name))]
            @ (if truthy subtitle_path \<and> path_exists env (the subtitle_path)
               then mux_calls env (expected_output_of env output_name) (the subtitle_path)
               else [])
            @ [RenameFile (expected_output_of env output_name) final_output]"
proof -
  let ?dir = "path_join (download_dir env) output_name"
  let ?st1 = "log_event (MakeDirs ?dir) st"
  let ?st2 = "log_event (RunTool (tool_command env mpd_url drm_key output_name ?dir)) ?st1"
  let ?exp = "expected_output_of env output_name"
  let ?m = "if truthy subtitle_path \<and> path_exists env (the subtitle_path)
            then mux_subtitle_into_video env ?st2 ?exp (the subtitle_path) else (False, ?st2)"
  let ?final = "path_join (download_dir env) (output_name @ ''_FINAL.mkv'')"
  have shape: "download_and_decrypt env st mpd_url drm_key output_name subtitle_path =
      (if urlparse_raises (bracketed_host_ok env) mpd_url then (DownloadRaised ValueError, ?st1)
       else
         case tool_run env of
           PopenFailed \<Rightarrow> (DownloadReturned None, ?st2)
         | Exited returncode error \<Rightarrow>
             if returncode = 0 then
               if path_exists env ?exp then
                 (if fst ?m then (DownloadReturned None, snd ?m)
                  else if rename_ok env
                       then (DownloadReturned (Some ?final),
                             log_event (RenameFile ?exp ?final) (snd ?m))
                       else (DownloadReturned None, log_event (RenameFile ?exp ?final) (snd ?m)))
               else (DownloadReturned None, ?st2)
             else (DownloadReturned None, log_event (PrintToolError returncode error) ?st2))"
    by (simp add: download_and_decrypt_def expected_output_of_def Let_def
          split: tool_result.splits prod.splits bool.splits)
  from assms have res: "final_output = ?final \<and> st' = log_event (RenameFile ?exp ?final) (snd ?m)"
    unfolding shape by (auto split: tool_result.splits if_splits)
  then show "final_output = ?final" by simp
  have "events (snd ?m) = events ?st2 @
          (if truthy subtitle_path \<and> path_exists env (the subtitle_path)
           then mux_calls env ?exp (the subtitle_path) else [])"
    by (simp add: mux_events)
  with res show "events st' = events st @
            [MakeDirs ?dir, RunTool (tool_command env mpd_url drm_key output_name ?dir)]
            @ (if truthy subtitle_path \<and> path_exists env (the subtitle_path)
               then mux_calls env (expected_output_of env output_name) (the subtitle_path)
               else [])
            @ [RenameFile (expected_output_of env output_name) final_output]"
    by simp
qed

lemma startswith_append: "startswith (p @ s) p"
  by (induction p) simp_all

lemma endswith_append: "endswith (s @ suffix) suffix"
  by (simp add: endswith_def startswith_append)

lemma endswith_path_join: "endswith (path_join a (b @ c # cs)) (c # cs)"
proof -
  have "path_join a (b @ c # cs) = b @ c # cs \<or> path_join a (b @ c # cs) = (a @ b) @ c # cs
        \<or> path_join a (b @ c # cs) = (a @ ''/'' @ b) @ c # cs"
    by (simp add: path_join_def)
  then show ?thesis
    using endswith_append by metis
qed

text \<open>
  Claim C10, as the code has it. Whenever \<open>download_and_decrypt\<close> returns a path, the path
  is the download directory joined with the output name followed by \<open>_FINAL.mkv\<close>, so it
  ends in \<open>_FINAL.mkv\<close>, also when the tool left an \<open>.mp4\<close> file and no \<open>.mkv\<close> file. The
  calls of the run are: the creation of the work directory; the tool; exactly when a
  subtitle file was given and exists, the calls of the subtitle mux (ffmpeg writes a
  \<open>_with_subs.mkv\<close> file and, when it succeeds, the container is removed and the new file
  renamed over it); last, the rename of the container to the final path. So without a
  subtitle file to mux the \<open>.mp4\<close> file gets the \<open>.mkv\<close> name by the rename alone.
\<close>

theorem final_artifact_named_mkv:
  assumes "download_and_decrypt env st mpd_url drm_key output_name subtitle_path
             = (DownloadReturned (Some final_output), st')"
  shows "final_output = path_join (download_dir env) (output_name @ ''_FINAL.mkv'')
       \<and> endswith final_output ''_FINAL.mkv''
       \<and> new_events st st' =
            [MakeDirs (path_join (download_dir env) output_name),
             RunTool (tool_command env mpd_url drm_key output_name
                        (path_join (download_dir env) output_name))]
            @ (if truthy subtitle_path \<and> path_exists env (the subtitle_path)
               then mux_calls env (expected_output_of env output_name) (the subtitle_path)
               else [])
            @ [RenameFile (expected_output_of env output_name) final_output]
       \<and> (\<not> path_exists env
               (path_join (path_join (download_dir env) output_name) (output_name @ ''.mkv''))
            \<longrightarrow> expected_output_of env output_name
                  = path_join (path_join (download_dir env) output_name) (output_name @ ''.mp4''))"
proof -
  have name: "final_output = path_join (download_dir env) (output_name @ ''_FINAL.mkv'')"
    using download_and_decrypt_success(1) [OF assms] .
  have suffix: "endswith final_output ''_FINAL.mkv''"
    unfolding name
    using endswith_path_join [of "download_dir env" output_name "CHR ''_''" "''FINAL.mkv''"]
    by simp
  have calls: "new_events st st' =
            [MakeDirs (path_join (download_dir env) output_name),
             RunTool (tool_command env mpd_url drm_key output_name
                        (path_join (download_dir env) output_name))]
            @ (if truthy subtitle_path \<and> path_exists env (the subtitle_path)
               then mux_calls env (expected_output_of env output_name) (the subtitle_path)
               else [])
            @ [RenameFile (expected_output_of env output_name) final_output]"
    unfolding new_events_def download_and_decrypt_success(2) [OF assms] by simp
  show ?thesis
    using name suffix calls by (simp add: expected_output_of_def)
qed

text \<open>
  C10 where the tool left only \<open>/dl/out/out.mp4\<close> and no subtitle file was given: the run
  makes three calls, the last being the rename of that file to \<open>/dl/out_FINAL.mkv\<close>.
\<close>

theorem final_artifact_named_mkv_witness:
  "fst (download_and_decrypt env_mp4 st_open ''https://cdn.example.net/m.mpd'' ''aa:bb'' ''out'' None)
     = DownloadReturned (Some ''/dl/out_FINAL.mkv'')
   \<and> endswith ''/dl/out_FINAL.mkv'' ''_FINAL.mkv''
   \<and> \<not> path_exists env_mp4 ''/dl/out/out.mkv''
   \<and> expected_output_of env_mp4 ''out'' = ''/dl/out/out.mp4''
   \<and> new_events st_open
        (snd (download_and_decrypt env_mp4 st_open ''https://cdn.example.net/m.mpd'' ''aa:bb''
                ''out'' None))
      = [MakeDirs ''/dl/out'',
         RunTool (tool_command env_mp4 ''https://cdn.example.net/m.mpd'' ''aa:bb'' ''out''
                    ''/dl/out''),
         RenameFile ''/dl/out/out.mp4'' ''/dl/out_FINAL.mkv'']"
proof -
  let ?run = "download_and_decrypt env_mp4 st_open ''https://cdn.example.net/m.mpd'' ''aa:bb''
                ''out'' None"
  have result: "fst ?run = DownloadReturned (Some ''/dl/out_FINAL.mkv'')"
    by code_simp
  then have run: "?run = (DownloadReturned (Some ''/dl/out_FINAL.mkv''), snd ?run)"
    by (simp add: prod_eq_iff)
  have paths: "path_join (download_dir env_mp4) ''out'' = ''/dl/out''"
      "path_join ''/dl/out'' (''out'' @ ''.mkv'') = ''/dl/out/out.mkv''"
      "path_join ''/dl/out'' (''out'' @ ''.mp4'') = ''/dl/out/out.mp4''"
      "\<not> path_exists env_mp4 ''/dl/out/out.mkv''"
      "\<not> truthy None"
    by code_simp+
  show ?thesis
    using final_artifact_named_mkv [OF run] result paths by auto
qed

text \<open>
  C10 as it is written fails for a run with a subtitle file. The tool left only
  \<open>/dl/out/out.mp4\<close> and the subtitle file \<open>/dl/temp/out.vtt\<close> exists: the run returns
  \<open>/dl/out_FINAL.mkv\<close>, but before the last rename ffmpeg writes the container
  \<open>/dl/out/out_with_subs.mkv\<close>, the \<open>.mp4\<close> file is removed and the new container takes
  its name. What is renamed to the final name is the output of ffmpeg, not the file of the
  tool.
\<close>

theorem final_artifact_counterexample:
  "fst (download_and_decrypt env_mp4_subtitle st_open ''https://cdn.example.net/m.mpd'' ''aa:bb''
          ''out'' (Some ''/dl/temp/out.vtt''))
     = DownloadReturned (Some ''/dl/out_FINAL.mkv'')
   \<and> \<not> path_exists env_mp4_subtitle ''/dl/out/out.mkv''
   \<and> new_events st_open
        (snd (download_and_decrypt env_mp4_subtitle st_open ''https://cdn.example.net/m.mpd''
                ''aa:bb'' ''out'' (Some ''/dl/temp/out.vtt'')))
      = [MakeDirs ''/dl/out'',
         RunTool (tool_command env_mp4_subtitle ''https://cdn.example.net/m.mpd'' ''aa:bb''
                    ''out'' ''/dl/out''),
         RunFfmpeg [''ffmpeg'', ''-i'', ''/dl/out/out.mp4'', ''-i'', ''/dl/temp/out.vtt'',
                    ''-c'', ''copy'', ''-c:s'', ''mov_text'', ''/dl/out/out_with_subs.mkv''],
         RemoveFile ''/dl/out/out.mp4'',
         RenameFile ''/dl/out/out_with_subs.mkv'' ''/dl/out/out.mp4'',
         RenameFile ''/dl/out/out.mp4'' ''/dl/out_FINAL.mkv'']"
  by code_simp

section \<open>The orchestrator\<close>

lemma download_stage_no_call:
  "grows (\<lambda>e. \<not> is_call_extractor e) st (snd (download_stage env st service_name data drm_key))"
proof -
  let ?name = "output_name_of service_name data (strftime_now env)"
  let ?sub = "if truthy (data_subtitle_url data)
              then download_subtitle env st (data_subtitle_url data)
                     (path_join (TEMP_DIR env) (?name @ ''.vtt''))
              else (None, st)"
  have g1: "grows (\<lambda>e. \<not> is_call_extractor e) st (snd ?sub)"
    by (simp add: download_subtitle_no_call)
  have g2: "grows (\<lambda>e. \<not> is_call_extractor e) (snd ?sub)
              (snd (download_and_decrypt env (snd ?sub) (data_mpd_url data) drm_key ?name (fst ?sub)))"
    by (rule download_and_decrypt_no_call)
  have "snd (download_stage env st service_name data drm_key) =
          snd (download_and_decrypt env (snd ?sub) (data_mpd_url data) drm_key ?name (fst ?sub))"
    by (simp add: download_stage_def Let_def split: prod.splits download_result.splits)
  with grows_trans [OF g1 g2] show ?thesis by simp
qed

lemma download_stage_nonzero:
  assumes "tool_run env = Exited returncode error" "returncode \<noteq> 0"
    and "\<not> urlparse_raises (bracketed_host_ok env) (data_mpd_url data)"
  shows "fst (download_stage env st service_name data drm_key) = Failed DownloadToolError"
    and "last (events (snd (download_stage env st service_name data drm_key)))
           = PrintToolError returncode error"
    and "grows (\<lambda>e. \<not> mux_or_rename e) st
           (snd (download_stage env st service_name data drm_key))"
  using assms
  by (auto simp: download_stage_def Let_def download_and_decrypt_nonzero download_subtitle_def
        grows_def split: prod.splits)

lemma download_stage_raises:
  assumes "urlparse_raises (bracketed_host_ok env) (data_mpd_url data)"
  shows "grows (\<lambda>e. \<not> is_run_tool e) st
           (snd (download_stage env st service_name data drm_key))"
  using assms
  by (auto simp: download_stage_def Let_def download_and_decrypt_raises download_subtitle_def
        grows_def split: prod.splits)

lemma grows_not_tool:
  "grows (\<lambda>e. \<not> is_run_tool e) st st' \<Longrightarrow> \<not> list_ex is_run_tool (new_events st st')"
  by (auto simp: grows_def new_events_def list_all_iff list_ex_iff)

lemma process_url_state:
  assumes "detect_service url = Some (service_name, extract_func)"
    and "extract_func env st url = (r, st1)"
  shows "snd (process_url env st url) = st1
       \<or> (\<exists>data. r = ReturnedData data
             \<and> (snd (process_url env st url)
                    = snd (get_drm_key env st1 (data_pssh data) url service_name)
                \<or> (\<exists>drm_key. snd (process_url env st url)
                    = snd (download_stage env
                             (snd (get_drm_key env st1 (data_pssh data) url service_name))
                             service_name data drm_key))))"
  using assms
  by (cases r)
     (auto simp: process_url_def split: prod.splits key_result.splits)

lemma process_url_starts:
  assumes detect: "detect_service url = Some (service_name, extract_func)"
    and starts: "starts_call p url st (snd (extract_func env st url))"
  shows "starts_call p url st (snd (process_url env st url))"
proof -
  obtain r st1 where ex: "extract_func env st url = (r, st1)"
    by (cases "extract_func env st url")
  have s1: "starts_call p url st st1" using starts ex by simp
  have s2: "starts_call p url st (snd (get_drm_key env st1 h url service_name))" for h
    by (rule starts_call_grows [OF s1 get_drm_key_no_call])
  have s3: "starts_call p url st
              (snd (download_stage env (snd (get_drm_key env st1 h url service_name))
                      service_name data drm_key))" for h data drm_key
    by (rule starts_call_grows [OF s2 download_stage_no_call])
  from process_url_state [OF detect ex] s1 s2 s3 show ?thesis
    by auto
qed

lemma timeout_channel4_raises:
  "\<not> video_appears env \<Longrightarrow> url_mentions Channel4 url \<Longrightarrow>
     fst (process_url env st url) = JobRaised AttributeError"
  by (auto simp: process_url_def detect_service_def url_mentions_def markers_def
        extract_channel4_data_def Let_def)

lemma timeout_itv_channel5_fails:
  "\<not> video_appears env \<Longrightarrow> \<not> url_mentions Channel4 url \<Longrightarrow>
   url_mentions ITV url \<or> url_mentions Channel5 url \<Longrightarrow>
     fst (process_url env st url) = Failed ExtractionTimeout"
  by (auto simp: process_url_def detect_service_def url_mentions_def markers_def
        extract_itv_data_def extract_channel5_data_def Let_def)

lemma output_name_without_id:
  "data_program_id data = None \<Longrightarrow>
     output_name_of service_name data t = filter (\<lambda>c. c \<noteq> CHR '' '') service_name @ ''-None-'' @ t"
  by (simp add: output_name_of_def)

text \<open>
  Claim C6 says that a timeout of the wait for the video element ends the job in a failure
  returned to the caller, for every provider. The code evaluated at a Channel 4 page whose
  video element does not appear: the extractor returns the tuple \<open>(None, None, None)\<close>, and
  \<open>process_url\<close> does not return: it raises AttributeError. At an ITV page and at a
  Channel 5 page the extractor returns \<open>None\<close> and the job fails as the claim says.
\<close>

theorem channel4_timeout_raises:
  "fst (extract_channel4_data env_timeout st_fresh page_channel4)
     = ReturnedNoneTuple ExtractionTimeout
   \<and> fst (process_url env_timeout st_fresh page_channel4) = JobRaised AttributeError
   \<and> fst (process_url env_timeout st_fresh page_itv) = Failed ExtractionTimeout
   \<and> fst (process_url env_timeout st_fresh page_channel5) = Failed ExtractionTimeout"
  by code_simp

text \<open>
  Claim C7, as the code has it. A URL in which none of the six markers occurs anywhere fails
  as an unsupported service and the downloader is left as it was, no extractor being
  entered. A URL in which a marker occurs enters exactly one extractor: that of Channel 4
  when a Channel 4 marker occurs, else that of ITV when an ITV marker occurs, else that of
  Channel 5.
\<close>

theorem provider_detection_by_substring:
  "(\<not> url_mentions Channel4 url \<and> \<not> url_mentions ITV url \<and> \<not> url_mentions Channel5 url
      \<longrightarrow> process_url env st url = (Failed UnsupportedService, st))
   \<and> (url_mentions Channel4 url
      \<longrightarrow> extractor_calls st (snd (process_url env st url)) = [CallExtractor Channel4 url])
   \<and> (\<not> url_mentions Channel4 url \<and> url_mentions ITV url
      \<longrightarrow> extractor_calls st (snd (process_url env st url)) = [CallExtractor ITV url])
   \<and> (\<not> url_mentions Channel4 url \<and> \<not> url_mentions ITV url \<and> url_mentions Channel5 url
      \<longrightarrow> extractor_calls st (snd (process_url env st url)) = [CallExtractor Channel5 url])"
proof -
  have none: "\<not> url_mentions Channel4 url \<and> \<not> url_mentions ITV url \<and> \<not> url_mentions Channel5 url
      \<Longrightarrow> process_url env st url = (Failed UnsupportedService, st)"
    by (simp add: process_url_def detect_service_def url_mentions_def markers_def)
  have c4: "url_mentions Channel4 url \<Longrightarrow> detect_service url = Some (''Channel 4'', extract_channel4_data)"
    by (auto simp: detect_service_def url_mentions_def markers_def)
  have itv: "\<not> url_mentions Channel4 url \<and> url_mentions ITV url
      \<Longrightarrow> detect_service url = Some (''ITV'', extract_itv_data)"
    by (auto simp: detect_service_def url_mentions_def markers_def)
  have c5: "\<not> url_mentions Channel4 url \<and> \<not> url_mentions ITV url \<and> url_mentions Channel5 url
      \<Longrightarrow> detect_service url = Some (''Channel 5'', extract_channel5_data)"
    by (auto simp: detect_service_def url_mentions_def markers_def)
  show ?thesis
    using none
      starts_call_calls [OF process_url_starts [OF c4 extract_channel4_starts]]
      starts_call_calls [OF process_url_starts [OF itv extract_itv_starts]]
      starts_call_calls [OF process_url_starts [OF c5 extract_channel5_starts]]
    by blast
qed

theorem provider_detection_by_substring_witness:
  "\<not> url_mentions Channel4 page_other \<and> \<not> url_mentions ITV page_other
   \<and> \<not> url_mentions Channel5 page_other
   \<and> process_url env_ok st_fresh page_other = (Failed UnsupportedService, st_fresh)
   \<and> url_mentions Channel4 page_channel4
   \<and> extractor_calls st_fresh (snd (process_url env_ok st_fresh page_channel4))
       = [CallExtractor Channel4 page_channel4]
   \<and> \<not> url_mentions Channel4 page_itv \<and> url_mentions ITV page_itv
   \<and> extractor_calls st_fresh (snd (process_url env_ok st_fresh page_itv))
       = [CallExtractor ITV page_itv]
   \<and> \<not> url_mentions Channel4 page_channel5 \<and> \<not> url_mentions ITV page_channel5
   \<and> url_mentions Channel5 page_channel5
   \<and> extractor_calls st_fresh (snd (process_url env_ok st_fresh page_channel5))
       = [CallExtractor Channel5 page_channel5]"
proof -
  have other: "\<not> url_mentions Channel4 page_other" "\<not> url_mentions ITV page_other"
      "\<not> url_mentions Channel5 page_other"
    by code_simp+
  have c4: "url_mentions Channel4 page_channel4"
    by code_simp
  have itv: "\<not> url_mentions Channel4 page_itv" "url_mentions ITV page_itv"
    by code_simp+
  have c5: "\<not> url_mentions Channel4 page_channel5" "\<not> url_mentions ITV page_channel5"
      "url_mentions Channel5 page_channel5"
    by code_simp+
  show ?thesis
    using provider_detection_by_substring [of page_other env_ok st_fresh]
      provider_detection_by_substring [of page_channel4 env_ok st_fresh]
      provider_detection_by_substring [of page_itv env_ok st_fresh]
      provider_detection_by_substring [of page_channel5 env_ok st_fresh]
      other c4 itv c5
    by simp
qed

text \<open>
  C7 as it is written fails: the markers are looked for in the whole URL, not in its host.
  The host of \<open>https://example.org/itv.com\<close> contains no marker, yet the job does not fail
  as unsupported and enters the ITV extractor. The host of
  \<open>https://www.itv.com/watch?from=channel4.com\<close> contains an ITV marker and no Channel 4
  marker, yet the extractor entered is that of Channel 4.
\<close>

theorem provider_detection_counterexample:
  "\<not> spec_host_matches Channel4 page_elsewhere \<and> \<not> spec_host_matches ITV page_elsewhere
   \<and> \<not> spec_host_matches Channel5 page_elsewhere
   \<and> fst (process_url env_ok st_fresh page_elsewhere) \<noteq> Failed UnsupportedService
   \<and> extractor_calls st_fresh (snd (process_url env_ok st_fresh page_elsewhere))
       = [CallExtractor ITV page_elsewhere]
   \<and> spec_host_matches ITV page_itv_from_channel4
   \<and> \<not> spec_host_matches Channel4 page_itv_from_channel4
   \<and> extractor_calls st_fresh (snd (process_url env_ok st_fresh page_itv_from_channel4))
       = [CallExtractor Channel4 page_itv_from_channel4]"
  by code_simp

text \<open>
  Claim C8. In every job that starts the download tool, if the tool ends with a code other
  than 0, the job fails with the download failure, the last call of the job is the printing
  of the return code and of the error stream of the tool, and no call of the job is a mux or
  a rename.
\<close>

theorem tool_failure_fails_job:
  assumes tool: "tool_run env = Exited returncode error" "returncode \<noteq> 0"
    and run: "process_url env st url = (outcome, st')"
    and reached: "list_ex is_run_tool (new_events st st')"
  shows "outcome = Failed DownloadToolError
         \<and> last (events st') = PrintToolError returncode error
         \<and> list_all (\<lambda>e. \<not> mux_or_rename e) (new_events st st')"
proof (cases "detect_service url")
  case None
  with run reached show ?thesis
    by (simp add: process_url_def new_events_def)
next
  case (Some sf)
  obtain service_name extract_func where sf: "sf = (service_name, extract_func)"
    by (cases sf)
  obtain r st1 where ex: "extract_func env st url = (r, st1)"
    by (cases "extract_func env st url")
  have g1: "grows session_event st st1"
    using extract_func_grows [of url service_name extract_func st env url] Some sf ex by simp
  show ?thesis
  proof (cases r)
    case (ReturnedNone f)
    with run Some sf ex have "st' = st1" by (simp add: process_url_def)
    with reached show ?thesis using grows_no_tool [OF g1] by simp
  next
    case (ReturnedNoneTuple f)
    with run Some sf ex have "st' = st1" by (simp add: process_url_def)
    with reached show ?thesis using grows_no_tool [OF g1] by simp
  next
    case (ReturnedData data)
    obtain k st2 where key: "get_drm_key env st1 (data_pssh data) url service_name = (k, st2)"
      by (cases "get_drm_key env st1 (data_pssh data) url service_name")
    have g2: "grows session_event st1 st2"
      using get_drm_key_grows [of st1 env "data_pssh data" url service_name] key by simp
    have g12: "grows session_event st st2"
      using grows_trans [OF g1 g2] .
    have early: "st' = st1 \<or> st' = st2 \<Longrightarrow> ?thesis"
      using reached grows_no_tool [OF g1] grows_no_tool [OF g12] by auto
    show ?thesis
    proof (cases "data_mpd_url data = []")
      case True
      with run Some sf ex ReturnedData have "st' = st1" by (simp add: process_url_def)
      then show ?thesis using early by simp
    next
      case mpd: False
      show ?thesis
      proof (cases k)
        case (KeyRaised e)
        with run Some sf ex ReturnedData mpd key have "st' = st2" by (simp add: process_url_def)
        then show ?thesis using early by simp
      next
        case (KeyNone f)
        with run Some sf ex ReturnedData mpd key have "st' = st2" by (simp add: process_url_def)
        then show ?thesis using early by simp
      next
        case (KeyReturned drm_key)
        show ?thesis
        proof (cases "drm_key = []")
          case True
          with run Some sf ex ReturnedData mpd key KeyReturned have "st' = st2"
            by (simp add: process_url_def)
          then show ?thesis using early by simp
        next
          case False
          with run Some sf ex ReturnedData mpd key KeyReturned
          have stage: "download_stage env st2 service_name data drm_key = (outcome, st')"
            by (simp add: process_url_def)
          have referer: "\<not> urlparse_raises (bracketed_host_ok env) (data_mpd_url data)"
          proof
            assume "urlparse_raises (bracketed_host_ok env) (data_mpd_url data)"
            then have "grows (\<lambda>e. \<not> is_run_tool e) st2 st'"
              using download_stage_raises [of env data st2 service_name drm_key] stage by simp
            moreover have "grows (\<lambda>e. \<not> is_run_tool e) st st2"
              by (rule grows_weaken [OF g12]) (simp add: session_not_tool)
            ultimately have "grows (\<lambda>e. \<not> is_run_tool e) st st'"
              using grows_trans by blast
            then show False
              using reached grows_not_tool by blast
          qed
          have o: "outcome = Failed DownloadToolError"
            using download_stage_nonzero(1) [OF tool referer, of st2 service_name drm_key] stage
            by simp
          have l: "last (events st') = PrintToolError returncode error"
            using download_stage_nonzero(2) [OF tool referer, of st2 service_name drm_key] stage
            by simp
          have g3: "grows (\<lambda>e. \<not> mux_or_rename e) st2 st'"
            using download_stage_nonzero(3) [OF tool referer, of st2 service_name drm_key] stage
            by simp
          have "grows (\<lambda>e. \<not> mux_or_rename e) st st2"
            by (rule grows_weaken [OF g12]) (simp add: session_not_tool)
          then have "grows (\<lambda>e. \<not> mux_or_rename e) st st'"
            by (rule grows_trans) (rule g3)
          then have "list_all (\<lambda>e. \<not> mux_or_rename e) (new_events st st')"
            by (simp add: grows_new_events)
          with o l show ?thesis by simp
        qed
      qed
    qed
  qed
qed

theorem tool_failure_fails_job_witness:
  "tool_run env_tool_fails = Exited 1 ''HTTP 403''
   \<and> list_ex is_run_tool
        (new_events st_fresh (snd (process_url env_tool_fails st_fresh page_channel4)))
   \<and> fst (process_url env_tool_fails st_fresh page_channel4) = Failed DownloadToolError
   \<and> last (events (snd (process_url env_tool_fails st_fresh page_channel4)))
       = PrintToolError 1 ''HTTP 403''
   \<and> list_all (\<lambda>e. \<not> mux_or_rename e)
        (new_events st_fresh (snd (process_url env_tool_fails st_fresh page_channel4)))"
proof -
  let ?run = "process_url env_tool_fails st_fresh page_channel4"
  have tool: "tool_run env_tool_fails = Exited 1 ''HTTP 403''" "(1::int) \<noteq> 0"
    by code_simp+
  have run: "?run = (fst ?run, snd ?run)"
    by simp
  have reached: "list_ex is_run_tool (new_events st_fresh (snd ?run))"
    by code_simp
  show ?thesis
    using tool_failure_fails_job [OF tool run reached] tool(1) reached by simp
qed

text \<open>
  Claim C9 says that a job without a program identifier uses a placeholder in the output
  name. The code evaluated at an ITV job in which no identifier is found: the entry
  \<open>program_id\<close> of the data is \<open>None\<close>, the output name is \<open>ITV-None-20250101_120000\<close>
  and the final file is named after it; the default \<open>program\<close> of line 580 is not used.
\<close>

theorem missing_program_id_named_none:
  "fst (extract_itv_data env_no_id st_fresh page_itv) =
     ReturnedData
       \<lparr>data_mpd_url = ''https://itvpnpdotcom.cdn.example.net/v1.2/a-b/manifest.mpd?x=1'',
        data_pssh = Some ''QUJD'', data_subtitle_url = None, data_program_id = None\<rparr>
   \<and> output_name_of ''ITV''
        \<lparr>data_mpd_url = ''https://itvpnpdotcom.cdn.example.net/v1.2/a-b/manifest.mpd?x=1'',
         data_pssh = Some ''QUJD'', data_subtitle_url = None, data_program_id = None\<rparr>
        ''20250101_120000'' = ''ITV-None-20250101_120000''
   \<and> fst (process_url env_no_id st_fresh page_itv)
       = Success ''/dl/ITV-None-20250101_120000_FINAL.mkv''"
  by code_simp

end
